theory Spec2Isabelle
  imports Complex_Main
begin

section \<open>Tensors, errors and the library layers\<close>

text \<open>
  The model of \<^verbatim>\<open>cleartext/models/encoder_decoder.py\<close> (the GRU variant with its
  orchestrator) and of \<^verbatim>\<open>cleartext/models/components.py\<close> (the LSTM variant).
  Tensors are nested lists of real numbers: floating-point values are idealised as reals.
  The exceptions raised by the tensor library are values of \<open>error\<close>.
  Every random draw (a dropout mask, a teacher-forcing draw) is an explicit argument.
\<close>

datatype error = IndexError | RuntimeError | ValueError

type_synonym vec = "real list"
type_synonym mat = "real list list"
type_synonym tensor3 = "real list list list"

definition mapi :: "(nat \<Rightarrow> 'a \<Rightarrow> 'b) \<Rightarrow> 'a list \<Rightarrow> 'b list" where
  "mapi f xs = map2 f [0..<length xs] xs"

definition dot :: "vec \<Rightarrow> vec \<Rightarrow> real" where
  "dot w x = sum_list (map2 (*) w x)"

text \<open>\<^verbatim>\<open>nn.Linear(in_features, out_features)\<close>: one weight row and one bias per output
  feature; the input's last dimension must be \<open>in_features\<close>.\<close>

record linear =
  in_features :: nat
  weight :: mat
  bias :: vec

definition linear_apply :: "linear \<Rightarrow> vec \<Rightarrow> vec" where
  "linear_apply l x = map2 (\<lambda>w b. dot w x + b) (weight l) (bias l)"

definition Linear_forward2 :: "linear \<Rightarrow> mat \<Rightarrow> error + mat" where
  "Linear_forward2 l x =
     (if list_all (\<lambda>v. length v = in_features l) x
      then Inr (map (linear_apply l) x) else Inl RuntimeError)"

definition Linear_forward3 :: "linear \<Rightarrow> tensor3 \<Rightarrow> error + tensor3" where
  "Linear_forward3 l x =
     (if list_all (list_all (\<lambda>v. length v = in_features l)) x
      then Inr (map (map (linear_apply l)) x) else Inl RuntimeError)"

text \<open>\<^verbatim>\<open>nn.Linear(attn_units, 1)\<close> followed by \<^verbatim>\<open>.squeeze(-1)\<close>: the single output
  feature is a scalar.\<close>

record linear1 =
  in_features1 :: nat
  weight1 :: vec
  bias1 :: real

definition Linear1_forward3 :: "linear1 \<Rightarrow> tensor3 \<Rightarrow> error + mat" where
  "Linear1_forward3 l x =
     (if list_all (list_all (\<lambda>v. length v = in_features1 l)) x
      then Inr (map (map (\<lambda>v. dot (weight1 l) v + bias1 l)) x) else Inl RuntimeError)"

text \<open>\<^verbatim>\<open>nn.Dropout(p)\<close>: the identity in evaluation mode; in training mode an element
  is kept and scaled by \<open>1 / (1 - p)\<close> or zeroed, as the mask \<open>keep\<close> (the random draw)
  says.\<close>

record dropout =
  p :: real
  training :: bool

definition drop1 :: "dropout \<Rightarrow> bool \<Rightarrow> real \<Rightarrow> real" where
  "drop1 d k v = (if training d then (if k then v / (1 - p d) else 0) else v)"

definition Dropout_forward1 :: "dropout \<Rightarrow> (nat \<Rightarrow> bool) \<Rightarrow> vec \<Rightarrow> vec" where
  "Dropout_forward1 d keep x = mapi (\<lambda>i v. drop1 d (keep i) v) x"

definition Dropout_forward2 :: "dropout \<Rightarrow> (nat \<Rightarrow> nat \<Rightarrow> bool) \<Rightarrow> mat \<Rightarrow> mat" where
  "Dropout_forward2 d keep x = mapi (\<lambda>i v. Dropout_forward1 d (keep i) v) x"

definition Dropout_forward3 :: "dropout \<Rightarrow> (nat \<Rightarrow> nat \<Rightarrow> nat \<Rightarrow> bool) \<Rightarrow> tensor3 \<Rightarrow> tensor3" where
  "Dropout_forward3 d keep x = mapi (\<lambda>i m. Dropout_forward2 d (keep i) m) x"

text \<open>\<^verbatim>\<open>F.softmax\<close> along the last dimension of a row.\<close>

definition softmax :: "vec \<Rightarrow> vec" where
  "softmax xs = map (\<lambda>x. exp x / sum_list (map exp xs)) xs"

text \<open>\<^verbatim>\<open>x.permute(1, 0, 2)\<close> of a tensor of shape \<open>(n, batch, d)\<close>; \<open>batch\<close> is given,
  as a nested list of shape \<open>(0, batch, d)\<close> does not show it.\<close>

definition permute_102 :: "nat \<Rightarrow> 'a list list \<Rightarrow> 'a list list" where
  "permute_102 batch xs = map (\<lambda>b. map (\<lambda>pos. pos ! b) xs) [0..<batch]"

section \<open>Attention\<close>

text \<open>\<^verbatim>\<open>Attention\<close> of \<^verbatim>\<open>encoder_decoder.py\<close>: the scores are the sums of the projected
  features.\<close>

record attention =
  attn_in :: nat
  attn_fc :: linear
  attn_dropout :: dropout

definition Attention_forward ::
  "attention \<Rightarrow> (nat \<Rightarrow> nat \<Rightarrow> nat \<Rightarrow> bool) \<Rightarrow> mat \<Rightarrow> tensor3 \<Rightarrow> error + mat" where
  "Attention_forward a keep dec_state enc_outputs =
     (let source_len = length enc_outputs;
          batch = length dec_state
      in if \<not> list_all (\<lambda>pos. length pos = batch) enc_outputs then Inl RuntimeError
      else
        let dec_state' = map (replicate source_len) dec_state;
            enc_outputs' = permute_102 batch enc_outputs;
            combined = map2 (map2 (@)) dec_state' enc_outputs';
            combined = Dropout_forward3 (attn_dropout a) keep combined
        in case Linear_forward3 (attn_fc a) combined of
             Inl e \<Rightarrow> Inl e
           | Inr projected \<Rightarrow>
               let scores = map (map (map tanh)) projected;
                   scores = map (map sum_list) scores;
                   weights = map softmax scores
               in Inr weights)"

text \<open>\<^verbatim>\<open>Attention\<close> of \<^verbatim>\<open>components.py\<close>: the scores come from a second, learned
  projection to one feature.\<close>

record attention_c =
  attn_in_c :: nat
  attn_fc1 :: linear
  attn_fc2 :: linear1
  attn_dropout_c :: dropout

definition Attention_forward_c ::
  "attention_c \<Rightarrow> (nat \<Rightarrow> nat \<Rightarrow> nat \<Rightarrow> bool) \<Rightarrow> mat \<Rightarrow> tensor3 \<Rightarrow> error + mat" where
  "Attention_forward_c a keep dec_state enc_outputs =
     (let source_len = length enc_outputs;
          batch = length dec_state
      in if \<not> list_all (\<lambda>pos. length pos = batch) enc_outputs then Inl RuntimeError
      else
        let dec_state' = map (replicate source_len) dec_state;
            enc_outputs' = permute_102 batch enc_outputs;
            combined = map2 (map2 (@)) dec_state' enc_outputs';
            combined = Dropout_forward3 (attn_dropout_c a) keep combined
        in case Linear_forward3 (attn_fc1 a) combined of
             Inl e \<Rightarrow> Inl e
           | Inr projected \<Rightarrow>
               (case Linear1_forward3 (attn_fc2 a) (map (map (map tanh)) projected) of
                  Inl e \<Rightarrow> Inl e
                | Inr scores \<Rightarrow>
                    let weights = map softmax scores
                    in Inr weights))"

section \<open>Embedding, concatenation and the recurrent layers\<close>

text \<open>\<^verbatim>\<open>nn.Embedding.from_pretrained(embed_weights)\<close>: row \<open>t\<close> of the table for token
  \<open>t\<close>; a token outside the table raises.\<close>

definition Embedding_forward :: "mat \<Rightarrow> int list list \<Rightarrow> error + tensor3" where
  "Embedding_forward w tokens =
     (if list_all (list_all (\<lambda>t. 0 \<le> t \<and> t < int (length w))) tokens
      then Inr (map (map (\<lambda>t. w ! nat t)) tokens) else Inl IndexError)"

text \<open>\<^verbatim>\<open>torch.cat((a, b), dim=1)\<close> of two matrices and \<^verbatim>\<open>torch.cat((a, b), dim=2)\<close>
  of two 3-D tensors: the other dimensions must agree.\<close>

definition cat_dim1 :: "mat \<Rightarrow> mat \<Rightarrow> error + mat" where
  "cat_dim1 a b = (if length a = length b then Inr (map2 (@) a b) else Inl RuntimeError)"

definition cat_dim2 :: "tensor3 \<Rightarrow> tensor3 \<Rightarrow> error + tensor3" where
  "cat_dim2 a b =
     (if length a = length b \<and> list_all2 (\<lambda>x y. length x = length y) a b
      then Inr (map2 (map2 (@)) a b) else Inl RuntimeError)"

text \<open>\<^verbatim>\<open>x.squeeze(0)\<close> where the code goes on with a tensor of one dimension less: the
  first dimension has size 1 (a tensor that keeps its three dimensions fails in the
  concatenation that follows).\<close>

definition squeeze0 :: "'a list \<Rightarrow> error + 'a" where
  "squeeze0 x = (case x of [m] \<Rightarrow> Inr m | _ \<Rightarrow> Inl RuntimeError)"

text \<open>\<^verbatim>\<open>nn.GRU\<close> and \<^verbatim>\<open>nn.LSTM\<close> are layers of the tensor library: what they compute is a
  parameter of the model. The library rejects a sequence of length zero.\<close>

record gru =
  gru_run :: "tensor3 \<Rightarrow> tensor3 option \<Rightarrow> error + tensor3 \<times> tensor3"

definition GRU_forward :: "gru \<Rightarrow> tensor3 \<Rightarrow> tensor3 option \<Rightarrow> error + tensor3 \<times> tensor3" where
  "GRU_forward g x h0 = (if x = [] then Inl RuntimeError else gru_run g x h0)"

record lstm =
  lstm_run :: "tensor3 \<Rightarrow> tensor3 \<times> tensor3 \<Rightarrow> error + tensor3 \<times> tensor3 \<times> tensor3"

definition LSTM_forward ::
  "lstm \<Rightarrow> tensor3 \<Rightarrow> tensor3 \<times> tensor3 \<Rightarrow> error + tensor3 \<times> tensor3 \<times> tensor3" where
  "LSTM_forward l x hc = (if x = [] then Inl RuntimeError else lstm_run l x hc)"

section \<open>Encoder and decoder\<close>

text \<open>\<^verbatim>\<open>Encoder\<close> of \<^verbatim>\<open>encoder_decoder.py\<close>. \<open>state[-2]\<close> and \<open>state[-1]\<close> are
  the last two entries of the state's first dimension.\<close>

record encoder =
  enc_embedding :: mat
  enc_gru :: gru
  enc_fc :: linear
  enc_dropout :: dropout

definition Encoder_forward ::
  "encoder \<Rightarrow> (nat \<Rightarrow> nat \<Rightarrow> bool) \<Rightarrow> int list list \<Rightarrow> error + tensor3 \<times> mat" where
  "Encoder_forward e keep source =
     (case Embedding_forward (enc_embedding e) source of
        Inl err \<Rightarrow> Inl err
      | Inr embedded \<Rightarrow>
          (case GRU_forward (enc_gru e) embedded None of
             Inl err \<Rightarrow> Inl err
           | Inr (outputs, state) \<Rightarrow>
               if length state < 2 then Inl IndexError
               else
                 (case cat_dim1 (state ! (length state - 2)) (state ! (length state - 1)) of
                    Inl err \<Rightarrow> Inl err
                  | Inr combined \<Rightarrow>
                      let combined = Dropout_forward2 (enc_dropout e) keep combined
                      in (case Linear_forward2 (enc_fc e) combined of
                            Inl err \<Rightarrow> Inl err
                          | Inr projected \<Rightarrow>
                              let state = map (map tanh) projected
                              in Inr (outputs, state)))))"

text \<open>\<^verbatim>\<open>Decoder\<close> of \<^verbatim>\<open>encoder_decoder.py\<close>. \<open>Decoder_rnn_input\<close> is the local
  \<open>rnn_input\<close> of \<open>forward\<close>, with \<open>embedded\<close> beside it.\<close>

record decoder =
  dec_embedding :: mat
  dec_rnn :: gru
  dec_fc :: linear
  dec_dropout :: dropout

definition vocab_size :: "decoder \<Rightarrow> nat" where
  "vocab_size d = length (dec_embedding d)"

definition Decoder_rnn_input ::
  "decoder \<Rightarrow> int list \<Rightarrow> tensor3 \<Rightarrow> error + tensor3 \<times> tensor3" where
  "Decoder_rnn_input d token context =
     (let token = [token]
      in case Embedding_forward (dec_embedding d) token of
           Inl err \<Rightarrow> Inl err
         | Inr embedded \<Rightarrow>
             (case cat_dim2 embedded context of
                Inl err \<Rightarrow> Inl err
              | Inr rnn_input \<Rightarrow> Inr (embedded, rnn_input)))"

definition Decoder_forward ::
  "decoder \<Rightarrow> (nat \<Rightarrow> nat \<Rightarrow> bool) \<Rightarrow> int list \<Rightarrow> mat \<Rightarrow> tensor3 \<Rightarrow> error + mat \<times> mat" where
  "Decoder_forward d keep token dec_state context =
     (case Decoder_rnn_input d token context of
        Inl err \<Rightarrow> Inl err
      | Inr (embedded, rnn_input) \<Rightarrow>
          (case GRU_forward (dec_rnn d) rnn_input (Some [dec_state]) of
             Inl err \<Rightarrow> Inl err
           | Inr (output, dec_state) \<Rightarrow>
               (case squeeze0 embedded of Inl err \<Rightarrow> Inl err | Inr embedded \<Rightarrow>
               (case squeeze0 output of Inl err \<Rightarrow> Inl err | Inr output \<Rightarrow>
               (case squeeze0 context of Inl err \<Rightarrow> Inl err | Inr context \<Rightarrow>
               (case cat_dim1 output context of Inl err \<Rightarrow> Inl err | Inr oc \<Rightarrow>
               (case cat_dim1 oc embedded of Inl err \<Rightarrow> Inl err | Inr combined \<Rightarrow>
                  let combined = Dropout_forward2 (dec_dropout d) keep combined
                  in (case Linear_forward2 (dec_fc d) combined of
                        Inl err \<Rightarrow> Inl err
                      | Inr output \<Rightarrow>
                          (case squeeze0 dec_state of
                             Inl err \<Rightarrow> Inl err
                           | Inr dec_state \<Rightarrow> Inr (output, dec_state))))))))))"

text \<open>\<^verbatim>\<open>Decoder\<close> of \<^verbatim>\<open>components.py\<close>: the embedded token goes through dropout
  (mask \<open>keep_e\<close>) before anything else uses it.\<close>

record decoder_c =
  dec_embedding_c :: mat
  dec_lstm :: lstm
  dec_fc_c :: linear
  dec_dropout_c :: dropout

definition Decoder_rnn_input_c ::
  "decoder_c \<Rightarrow> (nat \<Rightarrow> nat \<Rightarrow> nat \<Rightarrow> bool) \<Rightarrow> int list \<Rightarrow> tensor3 \<Rightarrow> error + tensor3 \<times> tensor3" where
  "Decoder_rnn_input_c d keep_e token context =
     (let token = [token]
      in case Embedding_forward (dec_embedding_c d) token of
           Inl err \<Rightarrow> Inl err
         | Inr embedded \<Rightarrow>
             let embedded = Dropout_forward3 (dec_dropout_c d) keep_e embedded
             in (case cat_dim2 embedded context of
                   Inl err \<Rightarrow> Inl err
                 | Inr rnn_input \<Rightarrow> Inr (embedded, rnn_input)))"

definition Decoder_forward_c ::
  "decoder_c \<Rightarrow> (nat \<Rightarrow> nat \<Rightarrow> nat \<Rightarrow> bool) \<Rightarrow> (nat \<Rightarrow> nat \<Rightarrow> bool) \<Rightarrow> int list \<Rightarrow> tensor3 \<Rightarrow>
     tensor3 \<Rightarrow> tensor3 \<Rightarrow> error + mat \<times> tensor3 \<times> tensor3" where
  "Decoder_forward_c d keep_e keep token context dec_hidden dec_cell =
     (case Decoder_rnn_input_c d keep_e token context of
        Inl err \<Rightarrow> Inl err
      | Inr (embedded, rnn_input) \<Rightarrow>
          (case LSTM_forward (dec_lstm d) rnn_input (dec_hidden, dec_cell) of
             Inl err \<Rightarrow> Inl err
           | Inr (output, dec_hidden, dec_cell) \<Rightarrow>
               (case squeeze0 embedded of Inl err \<Rightarrow> Inl err | Inr embedded \<Rightarrow>
               (case squeeze0 output of Inl err \<Rightarrow> Inl err | Inr output \<Rightarrow>
               (case squeeze0 context of Inl err \<Rightarrow> Inl err | Inr context \<Rightarrow>
               (case cat_dim1 output context of Inl err \<Rightarrow> Inl err | Inr oc \<Rightarrow>
               (case cat_dim1 oc embedded of Inl err \<Rightarrow> Inl err | Inr combined \<Rightarrow>
                  let combined = Dropout_forward2 (dec_dropout_c d) keep combined
                  in (case Linear_forward2 (dec_fc_c d) combined of
                        Inl err \<Rightarrow> Inl err
                      | Inr output \<Rightarrow> Inr (output, dec_hidden, dec_cell)))))))))"

section \<open>The orchestrator\<close>

record encoder_decoder =
  ed_encoder :: encoder
  ed_attention :: attention
  ed_decoder :: decoder

definition target_vocab_size :: "encoder_decoder \<Rightarrow> nat" where
  "target_vocab_size m = vocab_size (ed_decoder m)"

text \<open>\<^verbatim>\<open>torch.bmm(a, b)\<close>: per batch element the matrix product; the batch sizes and the
  inner dimensions must agree. \<open>width\<close> is the last dimension of a matrix with a row.\<close>

definition width :: "'a list list \<Rightarrow> nat" where
  "width m = (case m of [] \<Rightarrow> 0 | r # _ \<Rightarrow> length r)"

definition row_times_mat :: "vec \<Rightarrow> mat \<Rightarrow> vec" where
  "row_times_mat r m = map (\<lambda>d. dot r (map (\<lambda>pos. pos ! d) m)) [0..<width m]"

definition bmm :: "tensor3 \<Rightarrow> tensor3 \<Rightarrow> error + tensor3" where
  "bmm a b =
     (if length a = length b \<and> list_all2 (\<lambda>am bm. list_all (\<lambda>r. length r = length bm) am) a b
      then Inr (map2 (\<lambda>am bm. map (\<lambda>r. row_times_mat r bm) am) a b)
      else Inl RuntimeError)"

text \<open>\<^verbatim>\<open>EncoderDecoder._compute_context\<close>.\<close>

definition compute_context ::
  "encoder_decoder \<Rightarrow> (nat \<Rightarrow> nat \<Rightarrow> nat \<Rightarrow> bool) \<Rightarrow> mat \<Rightarrow> tensor3 \<Rightarrow> error + tensor3" where
  "compute_context m keep dec_state enc_outputs =
     (case Attention_forward (ed_attention m) keep dec_state enc_outputs of
        Inl err \<Rightarrow> Inl err
      | Inr w \<Rightarrow>
          let weights = map (\<lambda>r. [r]) w;
              enc_outputs = permute_102 (length dec_state) enc_outputs
          in (case bmm weights enc_outputs of
                Inl err \<Rightarrow> Inl err
              | Inr c \<Rightarrow> Inr (permute_102 1 c)))"

text \<open>\<^verbatim>\<open>out.max(1)[1]\<close>: per row the index of the first largest entry; a row with no
  entry raises.\<close>

fun argmax_from :: "nat \<Rightarrow> real \<Rightarrow> nat \<Rightarrow> vec \<Rightarrow> nat" where
  "argmax_from best v i [] = best"
| "argmax_from best v i (x # xs) =
     (if v < x then argmax_from i x (Suc i) xs else argmax_from best v (Suc i) xs)"

definition argmax :: "vec \<Rightarrow> nat" where
  "argmax xs = (case xs of [] \<Rightarrow> 0 | x # r \<Rightarrow> argmax_from 0 x 1 r)"

definition max_indices :: "mat \<Rightarrow> error + int list" where
  "max_indices logits =
     (if list_all (\<lambda>r. r \<noteq> []) logits then Inr (map (\<lambda>r. int (argmax r)) logits)
      else Inl RuntimeError)"

text \<open>The random draws of one call of \<open>forward\<close>: the dropout masks of the encoder, of the
  attention at step \<open>t\<close> and of the decoder at step \<open>t\<close>, and the value of
  \<^verbatim>\<open>random.random()\<close> at step \<open>t\<close>, a number in \<open>[0, 1)\<close>.\<close>

record draws =
  enc_keep :: "nat \<Rightarrow> nat \<Rightarrow> bool"
  attn_keep :: "nat \<Rightarrow> nat \<Rightarrow> nat \<Rightarrow> nat \<Rightarrow> bool"
  dec_keep :: "nat \<Rightarrow> nat \<Rightarrow> nat \<Rightarrow> bool"
  tf_draw :: "nat \<Rightarrow> real"

definition unit_draws :: "draws \<Rightarrow> bool" where
  "unit_draws rnd \<longleftrightarrow> (\<forall>t. 0 \<le> tf_draw rnd t \<and> tf_draw rnd t < 1)"

text \<open>The variables of the decode loop. \<open>rs_fed\<close> is not a variable of the code: it
  records the value of \<open>out\<close> passed to the decoder at each step, in order.\<close>

record rollout_state =
  rs_outputs :: tensor3
  rs_out :: "int list"
  rs_state :: mat
  rs_fed :: "int list list"

text \<open>The body of the loop at step \<open>t\<close>. The store \<open>outputs[t] = out\<close> needs logits of the
  slot's shape \<open>(batch_size, target_vocab_size)\<close>; logits of another shape, which the store
  would accept only by broadcasting and which the layers of a constructed model (projection to
  \<open>vocab_size\<close>, one state row per batch element) never produce, are rejected here. The
  arg-max is only computed when the draw does not choose the ground truth.\<close>

definition decode_step ::
  "encoder_decoder \<Rightarrow> draws \<Rightarrow> tensor3 \<Rightarrow> int list list \<Rightarrow> real \<Rightarrow> nat \<Rightarrow> nat \<Rightarrow>
     rollout_state \<Rightarrow> error + rollout_state" where
  "decode_step m rnd enc_outputs target teacher_forcing batch_size t s =
     (case compute_context m (attn_keep rnd t) (rs_state s) enc_outputs of
        Inl err \<Rightarrow> Inl err
      | Inr context \<Rightarrow>
          (case Decoder_forward (ed_decoder m) (dec_keep rnd t) (rs_out s) (rs_state s) context of
             Inl err \<Rightarrow> Inl err
           | Inr (logits, state') \<Rightarrow>
               if \<not> (length logits = batch_size \<and>
                     list_all (\<lambda>r. length r = target_vocab_size m) logits)
               then Inl RuntimeError
               else
                 let outputs' = (rs_outputs s)[t := logits];
                     teacher_force = tf_draw rnd t < teacher_forcing
                 in if teacher_force
                    then Inr \<lparr>rs_outputs = outputs', rs_out = target ! t, rs_state = state',
                              rs_fed = rs_fed s @ [rs_out s]\<rparr>
                    else (case max_indices logits of
                            Inl err \<Rightarrow> Inl err
                          | Inr pred \<Rightarrow>
                              Inr \<lparr>rs_outputs = outputs', rs_out = pred, rs_state = state',
                                   rs_fed = rs_fed s @ [rs_out s]\<rparr>)))"

fun rollout ::
  "encoder_decoder \<Rightarrow> draws \<Rightarrow> tensor3 \<Rightarrow> int list list \<Rightarrow> real \<Rightarrow> nat \<Rightarrow> nat list \<Rightarrow>
     rollout_state \<Rightarrow> error + rollout_state" where
  "rollout m rnd enc_outputs target teacher_forcing batch_size [] s = Inr s"
| "rollout m rnd enc_outputs target teacher_forcing batch_size (t # ts) s =
     (case decode_step m rnd enc_outputs target teacher_forcing batch_size t s of
        Inl err \<Rightarrow> Inl err
      | Inr s' \<Rightarrow> rollout m rnd enc_outputs target teacher_forcing batch_size ts s')"

text \<open>\<^verbatim>\<open>EncoderDecoder.forward\<close>, returning the loop's final variables; \<open>forward\<close> is what
  the code returns. \<open>source.shape[1]\<close> is read off the first row: the encoder has raised
  before the value is used when there is none.\<close>

definition forward_run ::
  "encoder_decoder \<Rightarrow> draws \<Rightarrow> int list list \<Rightarrow> int list list \<Rightarrow> real \<Rightarrow> error + rollout_state" where
  "forward_run m rnd source target teacher_forcing =
     (let batch_size = width source;
          max_len = length target
      in case Encoder_forward (ed_encoder m) (enc_keep rnd) source of
           Inl err \<Rightarrow> Inl err
         | Inr (enc_outputs, state) \<Rightarrow>
             let outputs = replicate max_len
                             (replicate batch_size (replicate (target_vocab_size m) 0))
             in (case target of
                   [] \<Rightarrow> Inl IndexError
                 | out # _ \<Rightarrow>
                     rollout m rnd enc_outputs target teacher_forcing batch_size [1..<max_len]
                       \<lparr>rs_outputs = outputs, rs_out = out, rs_state = state, rs_fed = []\<rparr>))"

text \<open>The loop's variables on entry, and when step \<open>t\<close> begins: after the steps
  \<open>1 .. t - 1\<close> of the loop.\<close>

definition loop_entry :: "encoder_decoder \<Rightarrow> int list list \<Rightarrow> int list list \<Rightarrow> mat \<Rightarrow> rollout_state" where
  "loop_entry m source target state =
     \<lparr>rs_outputs = replicate (length target)
                     (replicate (width source) (replicate (target_vocab_size m) 0)),
      rs_out = target ! 0, rs_state = state, rs_fed = []\<rparr>"

definition at_step ::
  "encoder_decoder \<Rightarrow> draws \<Rightarrow> tensor3 \<Rightarrow> mat \<Rightarrow> int list list \<Rightarrow> int list list \<Rightarrow> real \<Rightarrow> nat \<Rightarrow>
     error + rollout_state" where
  "at_step m rnd enc_outputs state source target teacher_forcing t =
     rollout m rnd enc_outputs target teacher_forcing (width source) [1..<t]
       (loop_entry m source target state)"

definition forward ::
  "encoder_decoder \<Rightarrow> draws \<Rightarrow> int list list \<Rightarrow> int list list \<Rightarrow> real \<Rightarrow> error + tensor3" where
  "forward m rnd source target teacher_forcing =
     (case forward_run m rnd source target teacher_forcing of
        Inl err \<Rightarrow> Inl err
      | Inr s \<Rightarrow> Inr (rs_outputs s))"

section \<open>A small model for concrete runs\<close>

text \<open>One recurrent unit, one attention unit, embeddings of dimension 1 and vocabularies of
  two tokens. The recurrent layers are stand-ins with the shapes of the library's layers:
  the encoder's returns outputs of twice the width and a state of two directions, the
  decoder's an output and a state of one unit.\<close>

definition ex_gru_enc :: gru where
  "ex_gru_enc = \<lparr>gru_run = (\<lambda>x h0. Inr (map (map (\<lambda>v. v @ v)) x, [hd x, last x]))\<rparr>"

definition ex_gru_dec :: gru where
  "ex_gru_dec =
     \<lparr>gru_run = (\<lambda>x h0. Inr (map (map (\<lambda>v. [hd v])) x, [map (\<lambda>v. [hd v]) (hd x)]))\<rparr>"

definition ex_eval :: dropout where
  "ex_eval = \<lparr>p = 1 / 2, training = False\<rparr>"

definition ex_train :: dropout where
  "ex_train = \<lparr>p = 1 / 2, training = True\<rparr>"

definition ex_encoder :: encoder where
  "ex_encoder =
     \<lparr>enc_embedding = [[0], [1]], enc_gru = ex_gru_enc,
      enc_fc = \<lparr>in_features = 2, weight = [[0, 0]], bias = [0]\<rparr>, enc_dropout = ex_eval\<rparr>"

definition ex_attention :: attention where
  "ex_attention =
     \<lparr>attn_in = 3, attn_fc = \<lparr>in_features = 3, weight = [[0, 0, 0]], bias = [0]\<rparr>,
      attn_dropout = \<lparr>p = 0, training = False\<rparr>\<rparr>"

definition ex_attention_c :: attention_c where
  "ex_attention_c =
     \<lparr>attn_in_c = 3, attn_fc1 = \<lparr>in_features = 3, weight = [[0, 0, 0]], bias = [0]\<rparr>,
      attn_fc2 = \<lparr>in_features1 = 1, weight1 = [1], bias1 = 0\<rparr>, attn_dropout_c = ex_eval\<rparr>"

definition ex_decoder :: decoder where
  "ex_decoder =
     \<lparr>dec_embedding = [[0], [1]], dec_rnn = ex_gru_dec,
      dec_fc = \<lparr>in_features = 4, weight = [[0, 0, 0, 1], [1, 0, 0, 0]], bias = [1 / 2, 0]\<rparr>,
      dec_dropout = ex_eval\<rparr>"

definition ex_model :: encoder_decoder where
  "ex_model = \<lparr>ed_encoder = ex_encoder, ed_attention = ex_attention, ed_decoder = ex_decoder\<rparr>"

definition ex_draws :: draws where
  "ex_draws =
     \<lparr>enc_keep = (\<lambda>_ _. True), attn_keep = (\<lambda>_ _ _ _. True), dec_keep = (\<lambda>_ _ _. True),
      tf_draw = (\<lambda>_. 1 / 2)\<rparr>"

definition keep_all :: "nat \<Rightarrow> nat \<Rightarrow> nat \<Rightarrow> bool" where
  "keep_all b s j = True"

definition drop_all :: "nat \<Rightarrow> nat \<Rightarrow> nat \<Rightarrow> bool" where
  "drop_all b s j = False"

definition keep_rows :: "nat \<Rightarrow> nat \<Rightarrow> bool" where
  "keep_rows b j = True"

text \<open>The two decoders in training mode, with the same embedding table.\<close>

definition ex_lstm :: lstm where
  "ex_lstm = \<lparr>lstm_run = (\<lambda>x (h, c). Inr (map (map (\<lambda>v. [hd v])) x, h, c))\<rparr>"

definition ex_decoder_t :: decoder where
  "ex_decoder_t = ex_decoder\<lparr>dec_dropout := ex_train\<rparr>"

definition ex_decoder_c :: decoder_c where
  "ex_decoder_c =
     \<lparr>dec_embedding_c = [[0], [1]], dec_lstm = ex_lstm,
      dec_fc_c = \<lparr>in_features = 4, weight = [[0, 0, 0, 1], [1, 0, 0, 0]], bias = [1 / 2, 0]\<rparr>,
      dec_dropout_c = ex_train\<rparr>"

section \<open>Construction\<close>

text \<open>What a constructor fixes is the sizes of the layers, not their initial weights. The
  layer constructors are the tensor library's, with its argument checks:
  \<^verbatim>\<open>nn.Dropout\<close> rejects a probability outside \<open>[0, 1]\<close>; \<^verbatim>\<open>nn.Linear\<close> cannot allocate
  a weight of negative size and accepts size zero. Which sizes \<^verbatim>\<open>nn.GRU\<close> accepts has
  changed between versions of the library: it is the parameter \<open>rnn_ok\<close>, a predicate on
  \<open>input_size\<close> and \<open>hidden_size\<close>. A new module is in training mode.\<close>

type_synonym shape = "nat list"

record linear_spec =
  lin_in :: nat
  lin_out :: nat

record gru_spec =
  gru_input_size :: nat
  gru_hidden_size :: nat
  gru_directions :: nat

definition nn_Dropout :: "real \<Rightarrow> error + dropout" where
  "nn_Dropout prob =
     (if prob < 0 \<or> 1 < prob then Inl ValueError else Inr \<lparr>p = prob, training = True\<rparr>)"

definition nn_Linear :: "int \<Rightarrow> int \<Rightarrow> error + linear_spec" where
  "nn_Linear i out =
     (if i < 0 \<or> out < 0 then Inl RuntimeError else Inr \<lparr>lin_in = nat i, lin_out = nat out\<rparr>)"

definition nn_GRU :: "(int \<Rightarrow> int \<Rightarrow> bool) \<Rightarrow> int \<Rightarrow> int \<Rightarrow> bool \<Rightarrow> error + gru_spec" where
  "nn_GRU rnn_ok input_size hidden_size bidirectional =
     (if \<not> rnn_ok input_size hidden_size then Inl ValueError
      else Inr \<lparr>gru_input_size = nat input_size, gru_hidden_size = nat hidden_size,
                gru_directions = (if bidirectional then 2 else 1)\<rparr>)"

text \<open>The check of the library's current versions: \<open>input_size\<close> and \<open>hidden_size\<close> must
  both be greater than zero.\<close>

definition positive_hidden :: "int \<Rightarrow> int \<Rightarrow> bool" where
  "positive_hidden input_size hidden_size \<longleftrightarrow> 0 < input_size \<and> 0 < hidden_size"

record encoder_spec =
  es_embedding :: "nat \<times> nat"
  es_gru :: gru_spec
  es_fc :: linear_spec
  es_dropout :: dropout

definition Encoder_init ::
  "(int \<Rightarrow> int \<Rightarrow> bool) \<Rightarrow> nat \<times> nat \<Rightarrow> int \<Rightarrow> real \<Rightarrow> error + encoder_spec" where
  "Encoder_init rnn_ok embed_weights units dropout =
     (let embed_dim = snd embed_weights
      in case nn_GRU rnn_ok (int embed_dim) units True of
           Inl err \<Rightarrow> Inl err
         | Inr gru \<Rightarrow>
             (case nn_Linear (units * 2) units of
                Inl err \<Rightarrow> Inl err
              | Inr fc \<Rightarrow>
                  (case nn_Dropout dropout of
                     Inl err \<Rightarrow> Inl err
                   | Inr dr \<Rightarrow>
                       Inr \<lparr>es_embedding = embed_weights, es_gru = gru, es_fc = fc,
                            es_dropout = dr\<rparr>)))"

record attention_spec =
  as_attn_in :: int
  as_fc :: linear_spec
  as_dropout :: dropout

definition Attention_init :: "int \<Rightarrow> int \<Rightarrow> real \<Rightarrow> error + attention_spec" where
  "Attention_init state_dim units dropout =
     (let attn_in = state_dim * 3
      in case nn_Linear attn_in units of
           Inl err \<Rightarrow> Inl err
         | Inr fc \<Rightarrow>
             (case nn_Dropout dropout of
                Inl err \<Rightarrow> Inl err
              | Inr dr \<Rightarrow> Inr \<lparr>as_attn_in = attn_in, as_fc = fc, as_dropout = dr\<rparr>))"

record decoder_spec =
  ds_embedding :: "nat \<times> nat"
  ds_vocab_size :: nat
  ds_rnn :: gru_spec
  ds_fc :: linear_spec
  ds_dropout :: dropout

definition Decoder_init ::
  "(int \<Rightarrow> int \<Rightarrow> bool) \<Rightarrow> nat \<times> nat \<Rightarrow> int \<Rightarrow> int \<Rightarrow> real \<Rightarrow> error + decoder_spec" where
  "Decoder_init rnn_ok embed_weights units context_size dropout =
     (let (vocab_size, embed_dim) = embed_weights
      in case nn_GRU rnn_ok ((units * 2) + int embed_dim) units False of
           Inl err \<Rightarrow> Inl err
         | Inr rnn \<Rightarrow>
             (case nn_Linear (units + context_size + int embed_dim) (int vocab_size) of
                Inl err \<Rightarrow> Inl err
              | Inr fc \<Rightarrow>
                  (case nn_Dropout dropout of
                     Inl err \<Rightarrow> Inl err
                   | Inr dr \<Rightarrow>
                       Inr \<lparr>ds_embedding = embed_weights, ds_vocab_size = vocab_size,
                            ds_rnn = rnn, ds_fc = fc, ds_dropout = dr\<rparr>)))"

record encoder_decoder_spec =
  eds_encoder :: encoder_spec
  eds_attention :: attention_spec
  eds_decoder :: decoder_spec
  eds_target_vocab_size :: nat

definition EncoderDecoder_init ::
  "(int \<Rightarrow> int \<Rightarrow> bool) \<Rightarrow> nat \<times> nat \<Rightarrow> nat \<times> nat \<Rightarrow> int \<Rightarrow> int \<Rightarrow> real \<Rightarrow>
     error + encoder_decoder_spec" where
  "EncoderDecoder_init rnn_ok embed_weights_src embed_weights_trg rnn_units attn_units dropout =
     (case Encoder_init rnn_ok embed_weights_src rnn_units dropout of
        Inl err \<Rightarrow> Inl err
      | Inr enc \<Rightarrow>
          (case Attention_init rnn_units attn_units 0 of
             Inl err \<Rightarrow> Inl err
           | Inr att \<Rightarrow>
               (case Decoder_init rnn_ok embed_weights_trg rnn_units (2 * rnn_units) dropout of
                  Inl err \<Rightarrow> Inl err
                | Inr dec \<Rightarrow>
                    Inr \<lparr>eds_encoder = enc, eds_attention = att, eds_decoder = dec,
                         eds_target_vocab_size = ds_vocab_size dec\<rparr>)))"











section \<open>The shapes of a forward pass\<close>

text \<open>The forward passes of \<^verbatim>\<open>encoder_decoder.py\<close> once more, computing the shape of every
  tensor in place of its values, with the library's shape rules: an operation whose operands
  do not fit raises. Token values play no part: the ids are taken to be inside the tables.\<close>

definition cat_shape :: "nat \<Rightarrow> shape \<Rightarrow> shape \<Rightarrow> error + shape" where
  "cat_shape axis a b =
     (if length a = length b \<and> axis < length a \<and> a[axis := 0] = b[axis := 0]
      then Inr (a[axis := a ! axis + b ! axis]) else Inl RuntimeError)"

definition Linear_shape :: "linear_spec \<Rightarrow> shape \<Rightarrow> error + shape" where
  "Linear_shape l x =
     (if x \<noteq> [] \<and> last x = lin_in l then Inr (butlast x @ [lin_out l]) else Inl RuntimeError)"

definition Embedding_shape :: "nat \<times> nat \<Rightarrow> shape \<Rightarrow> shape" where
  "Embedding_shape w x = x @ [snd w]"

text \<open>\<^verbatim>\<open>nn.GRU\<close> on an input \<open>(seq_len, batch, input_size)\<close> with an optional initial state
  \<open>(directions, batch, hidden_size)\<close>.\<close>

definition GRU_shape :: "gru_spec \<Rightarrow> shape \<Rightarrow> shape option \<Rightarrow> error + shape \<times> shape" where
  "GRU_shape g x h0 =
     (case x of
        [seq_len, batch, features] \<Rightarrow>
          if seq_len = 0 \<or> features \<noteq> gru_input_size g then Inl RuntimeError
          else if h0 \<noteq> None \<and> h0 \<noteq> Some [gru_directions g, batch, gru_hidden_size g]
          then Inl RuntimeError
          else Inr ([seq_len, batch, gru_directions g * gru_hidden_size g],
                    [gru_directions g, batch, gru_hidden_size g])
      | _ \<Rightarrow> Inl RuntimeError)"

definition permute_102_shape :: "shape \<Rightarrow> error + shape" where
  "permute_102_shape x = (case x of [a, b, c] \<Rightarrow> Inr [b, a, c] | _ \<Rightarrow> Inl RuntimeError)"

definition unsqueeze :: "nat \<Rightarrow> shape \<Rightarrow> shape" where
  "unsqueeze axis x = take axis x @ 1 # drop axis x"

definition squeeze0_shape :: "shape \<Rightarrow> shape" where
  "squeeze0_shape x = (case x of [] \<Rightarrow> [] | n # r \<Rightarrow> if n = 1 then r else n # r)"

definition repeat_shape :: "nat list \<Rightarrow> shape \<Rightarrow> error + shape" where
  "repeat_shape reps x =
     (if length x \<le> length reps
      then Inr (map2 (*) reps (replicate (length reps - length x) 1 @ x))
      else Inl RuntimeError)"

definition bmm_shape :: "shape \<Rightarrow> shape \<Rightarrow> error + shape" where
  "bmm_shape a b =
     (case (a, b) of
        ([ba, n, k], [bb, k', q]) \<Rightarrow>
          if ba = bb \<and> k = k' then Inr [ba, n, q] else Inl RuntimeError
      | _ \<Rightarrow> Inl RuntimeError)"

text \<open>\<open>x[i]\<close>, \<open>x[i, :]\<close> and \<open>x[i, :, :]\<close>: an index \<open>i\<close> into the first dimension,
  counted from the front or (negative) from the back, followed by \<open>slices\<close> full slices; the
  tensor must have a dimension for the index and for each slice.\<close>

definition index_shape :: "int \<Rightarrow> nat \<Rightarrow> shape \<Rightarrow> error + shape" where
  "index_shape i slices x =
     (case x of
        [] \<Rightarrow> Inl IndexError
      | n # r \<Rightarrow>
          if length r < slices then Inl IndexError
          else if - int n \<le> i \<and> i < int n then Inr r else Inl IndexError)"

text \<open>\<open>x.max(1)[1]\<close> of a matrix: the reduced dimension must not be empty.\<close>

definition max1_shape :: "shape \<Rightarrow> error + shape" where
  "max1_shape x =
     (case x of [b, v] \<Rightarrow> if v = 0 then Inl RuntimeError else Inr [b] | _ \<Rightarrow> Inl IndexError)"

text \<open>\<open>outputs[t] = out\<close>: the value is broadcast to the slot, so each of its dimensions,
  aligned at the end, is the slot's or 1.\<close>

definition broadcastable :: "shape \<Rightarrow> shape \<Rightarrow> bool" where
  "broadcastable src dst \<longleftrightarrow>
     length src \<le> length dst \<and>
     list_all2 (\<lambda>s d. s = d \<or> s = 1) src (drop (length dst - length src) dst)"

definition Encoder_forward_shape :: "encoder_spec \<Rightarrow> shape \<Rightarrow> error + shape \<times> shape" where
  "Encoder_forward_shape e source =
     (let embedded = Embedding_shape (es_embedding e) source
      in case GRU_shape (es_gru e) embedded None of
           Inl err \<Rightarrow> Inl err
         | Inr (outputs, state) \<Rightarrow>
             (case index_shape (- 2) 2 state of Inl err \<Rightarrow> Inl err | Inr fwd \<Rightarrow>
             (case index_shape (- 1) 2 state of Inl err \<Rightarrow> Inl err | Inr bwd \<Rightarrow>
             (case cat_shape 1 fwd bwd of Inl err \<Rightarrow> Inl err | Inr combined \<Rightarrow>
             (case Linear_shape (es_fc e) combined of
                Inl err \<Rightarrow> Inl err
              | Inr state \<Rightarrow> Inr (outputs, state))))))"

definition Attention_forward_shape :: "attention_spec \<Rightarrow> shape \<Rightarrow> shape \<Rightarrow> error + shape" where
  "Attention_forward_shape a dec_state enc_outputs =
     (case enc_outputs of
        [] \<Rightarrow> Inl IndexError
      | source_len # _ \<Rightarrow>
          (case repeat_shape [1, source_len, 1] (unsqueeze 1 dec_state) of
             Inl err \<Rightarrow> Inl err
           | Inr dec_state \<Rightarrow>
               (case permute_102_shape enc_outputs of Inl err \<Rightarrow> Inl err | Inr enc_outputs \<Rightarrow>
               (case cat_shape 2 dec_state enc_outputs of Inl err \<Rightarrow> Inl err | Inr combined \<Rightarrow>
               (case Linear_shape (as_fc a) combined of
                  Inl err \<Rightarrow> Inl err
                | Inr scores \<Rightarrow>
                    if length scores = 3 then Inr (butlast scores) else Inl IndexError)))))"

definition Decoder_forward_shape ::
  "decoder_spec \<Rightarrow> shape \<Rightarrow> shape \<Rightarrow> shape \<Rightarrow> error + shape \<times> shape" where
  "Decoder_forward_shape d token dec_state context =
     (let token = unsqueeze 0 token;
          embedded = Embedding_shape (ds_embedding d) token
      in case cat_shape 2 embedded context of
           Inl err \<Rightarrow> Inl err
         | Inr rnn_input \<Rightarrow>
             (case GRU_shape (ds_rnn d) rnn_input (Some (unsqueeze 0 dec_state)) of
                Inl err \<Rightarrow> Inl err
              | Inr (output, dec_state) \<Rightarrow>
                  let embedded = squeeze0_shape embedded;
                      output = squeeze0_shape output;
                      context = squeeze0_shape context
                  in (case cat_shape 1 output context of Inl err \<Rightarrow> Inl err | Inr oc \<Rightarrow>
                     (case cat_shape 1 oc embedded of Inl err \<Rightarrow> Inl err | Inr combined \<Rightarrow>
                     (case Linear_shape (ds_fc d) combined of
                        Inl err \<Rightarrow> Inl err
                      | Inr output \<Rightarrow> Inr (output, squeeze0_shape dec_state))))))"

definition compute_context_shape ::
  "encoder_decoder_spec \<Rightarrow> shape \<Rightarrow> shape \<Rightarrow> error + shape" where
  "compute_context_shape m dec_state enc_outputs =
     (case Attention_forward_shape (eds_attention m) dec_state enc_outputs of
        Inl err \<Rightarrow> Inl err
      | Inr w \<Rightarrow>
          let weights = unsqueeze 1 w
          in (case permute_102_shape enc_outputs of Inl err \<Rightarrow> Inl err | Inr enc_outputs \<Rightarrow>
             (case bmm_shape weights enc_outputs of
                Inl err \<Rightarrow> Inl err
              | Inr c \<Rightarrow> permute_102_shape c)))"

text \<open>The loop: \<open>choices t\<close> is the outcome of the teacher-forcing draw at step \<open>t\<close>. The loop
  variables are the shapes of \<open>out\<close> and \<open>state\<close>.\<close>

fun rollout_shape ::
  "encoder_decoder_spec \<Rightarrow> (nat \<Rightarrow> bool) \<Rightarrow> shape \<Rightarrow> shape \<Rightarrow> shape \<Rightarrow> nat list \<Rightarrow>
     shape \<times> shape \<Rightarrow> error + shape \<times> shape" where
  "rollout_shape m choices enc_outputs target outputs [] s = Inr s"
| "rollout_shape m choices enc_outputs target outputs (t # ts) (out, state) =
     (case compute_context_shape m state enc_outputs of
        Inl err \<Rightarrow> Inl err
      | Inr context \<Rightarrow>
          (case Decoder_forward_shape (eds_decoder m) out state context of
             Inl err \<Rightarrow> Inl err
           | Inr (out, state) \<Rightarrow>
               if \<not> broadcastable out (tl outputs) then Inl RuntimeError
               else
                 (case (if choices t then index_shape (int t) 0 target else max1_shape out) of
                    Inl err \<Rightarrow> Inl err
                  | Inr out \<Rightarrow>
                      rollout_shape m choices enc_outputs target outputs ts (out, state))))"

definition forward_shape ::
  "encoder_decoder_spec \<Rightarrow> (nat \<Rightarrow> bool) \<Rightarrow> shape \<Rightarrow> shape \<Rightarrow> error + shape" where
  "forward_shape m choices source target =
     (if length source < 2 \<or> target = [] then Inl IndexError
      else
        let batch_size = source ! 1;
            max_len = target ! 0
        in case Encoder_forward_shape (eds_encoder m) source of
             Inl err \<Rightarrow> Inl err
           | Inr (enc_outputs, state) \<Rightarrow>
               let outputs = [max_len, batch_size, eds_target_vocab_size m]
               in (case index_shape 0 1 target of
                     Inl err \<Rightarrow> Inl err
                   | Inr out \<Rightarrow>
                       (case rollout_shape m choices enc_outputs target outputs [1..<max_len]
                               (out, state) of
                          Inl err \<Rightarrow> Inl err
                        | Inr _ \<Rightarrow> Inr outputs)))"

text \<open>The sizes of the specification's scenario: tables of 100 rows and 50 columns, 8
  recurrent and 8 attention units; and the same with no attention unit.\<close>

definition ex_spec :: encoder_decoder_spec where
  "ex_spec =
     \<lparr>eds_encoder =
        \<lparr>es_embedding = (100, 50),
         es_gru = \<lparr>gru_input_size = 50, gru_hidden_size = 8, gru_directions = 2\<rparr>,
         es_fc = \<lparr>lin_in = 16, lin_out = 8\<rparr>,
         es_dropout = \<lparr>p = 3 / 10, training = True\<rparr>\<rparr>,
      eds_attention =
        \<lparr>as_attn_in = 24, as_fc = \<lparr>lin_in = 24, lin_out = 8\<rparr>,
         as_dropout = \<lparr>p = 0, training = True\<rparr>\<rparr>,
      eds_decoder =
        \<lparr>ds_embedding = (100, 50), ds_vocab_size = 100,
         ds_rnn = \<lparr>gru_input_size = 66, gru_hidden_size = 8, gru_directions = 1\<rparr>,
         ds_fc = \<lparr>lin_in = 74, lin_out = 100\<rparr>,
         ds_dropout = \<lparr>p = 3 / 10, training = True\<rparr>\<rparr>,
      eds_target_vocab_size = 100\<rparr>"



definition second_step :: "nat \<Rightarrow> bool" where
  "second_step t \<longleftrightarrow> t = 2"

section \<open>Properties of the layers\<close>

lemma length_mapi [simp]: "length (mapi f xs) = length xs"
  by (simp add: mapi_def)

lemma nth_mapi [simp]: "i < length xs \<Longrightarrow> mapi f xs ! i = f i (xs ! i)"
  by (simp add: mapi_def)

lemma sum_list_divide: "sum_list (map (\<lambda>x. f x / (c::real)) xs) = sum_list (map f xs) / c"
  by (induction xs) (simp_all add: add_divide_distrib)

lemma sum_list_exp_pos: "xs \<noteq> [] \<Longrightarrow> 0 < sum_list (map exp (xs::real list))"
proof (induction xs)
  case Nil
  then show ?case by simp
next
  case (Cons x xs)
  have "0 \<le> sum_list (map exp xs)"
    by (rule sum_list_nonneg) auto
  then have "0 < exp x + sum_list (map exp xs)"
    by (intro add_pos_nonneg) simp_all
  then show ?case by simp
qed

lemma length_softmax [simp]: "length (softmax xs) = length xs"
  by (simp add: softmax_def)

lemma softmax_nonneg: "x \<in> set (softmax xs) \<Longrightarrow> 0 \<le> x"
proof -
  assume "x \<in> set (softmax xs)"
  then obtain y where x: "x = exp y / sum_list (map exp xs)"
    by (auto simp: softmax_def)
  have "0 \<le> sum_list (map exp xs)"
    by (rule sum_list_nonneg) auto
  then show ?thesis
    by (simp add: x)
qed

lemma softmax_sum: "xs \<noteq> [] \<Longrightarrow> sum_list (softmax xs) = 1"
  using sum_list_exp_pos [of xs] by (simp add: softmax_def sum_list_divide)

lemma length_Dropout_forward1 [simp]: "length (Dropout_forward1 d keep x) = length x"
  by (simp add: Dropout_forward1_def)

lemma length_Dropout_forward2 [simp]: "length (Dropout_forward2 d keep x) = length x"
  by (simp add: Dropout_forward2_def)

lemma length_Dropout_forward3 [simp]: "length (Dropout_forward3 d keep x) = length x"
  by (simp add: Dropout_forward3_def)

lemma Dropout_forward3_rows:
  "list_all (\<lambda>r. length r = n) x \<Longrightarrow> list_all (\<lambda>r. length r = n) (Dropout_forward3 d keep x)"
  by (simp add: list_all_length Dropout_forward3_def)

lemma length_permute_102 [simp]: "length (permute_102 batch xs) = batch"
  by (simp add: permute_102_def)

lemma attn_combined_shape:
  "length (map2 (map2 (@)) (map (replicate (length enc)) ds) (permute_102 (length ds) enc))
     = length ds"
  "list_all (\<lambda>r. length r = length enc)
     (map2 (map2 (@)) (map (replicate (length enc)) ds) (permute_102 (length ds) enc))"
  by (simp_all add: list_all_length permute_102_def)

lemma softmax_rows_distribution:
  assumes "n \<noteq> 0" and "list_all (\<lambda>r. length r = n) scores" and "row \<in> set (map softmax scores)"
  shows "length row = n \<and> (\<forall>x\<in>set row. 0 \<le> x) \<and> sum_list row = 1"
proof -
  from assms(3) obtain r where r: "r \<in> set scores" "row = softmax r" by auto
  with assms(2) have "length r = n" by (simp add: list_all_iff)
  with assms(1) have "r \<noteq> []" by auto
  with r \<open>length r = n\<close> show ?thesis
    by (auto simp: softmax_sum dest: softmax_nonneg)
qed

lemmas ex_defs = ex_model_def ex_draws_def ex_decoder_def ex_attention_def ex_attention_c_def
  ex_encoder_def ex_eval_def ex_train_def ex_gru_dec_def ex_gru_enc_def keep_all_def drop_all_def
  keep_rows_def
  ex_lstm_def ex_decoder_t_def ex_decoder_c_def

lemmas layer_defs = GRU_forward_def LSTM_forward_def Embedding_forward_def cat_dim1_def
  cat_dim2_def squeeze0_def bmm_def row_times_mat_def width_def max_indices_def argmax_def
  Linear_forward2_def Linear_forward3_def Linear1_forward3_def linear_apply_def dot_def
  Dropout_forward1_def Dropout_forward2_def Dropout_forward3_def drop1_def mapi_def softmax_def
  permute_102_def

lemmas run_defs = forward_run_def forward_def decode_step_def compute_context_def
  Attention_forward_def Decoder_forward_def Decoder_rnn_input_def Encoder_forward_def
  target_vocab_size_def vocab_size_def

section \<open>Attention weights\<close>

lemma Attention_forward_rows:
  assumes "enc_outputs \<noteq> []" and "Attention_forward a keep dec_state enc_outputs = Inr w"
  shows "length w = length dec_state \<and>
         (\<forall>row\<in>set w. length row = length enc_outputs \<and> (\<forall>x\<in>set row. 0 \<le> x) \<and>
            sum_list row = 1)"
proof
  let ?n = "length enc_outputs"
  let ?combined = "map2 (map2 (@)) (map (replicate ?n) dec_state)
                     (permute_102 (length dec_state) enc_outputs)"
  from assms(1) have n: "?n \<noteq> 0" by simp
  from assms(2) obtain projected where
    p: "Linear_forward3 (attn_fc a) (Dropout_forward3 (attn_dropout a) keep ?combined)
          = Inr projected"
    and w: "w = map softmax (map (map sum_list) (map (map (map tanh)) projected))"
    by (auto simp: Attention_forward_def Let_def split: if_splits sum.splits)
  from p have proj: "projected = map (map (linear_apply (attn_fc a)))
                       (Dropout_forward3 (attn_dropout a) keep ?combined)"
    by (auto simp: Linear_forward3_def split: if_splits)
  have rows: "list_all (\<lambda>r. length r = ?n) (map (map sum_list) (map (map (map tanh)) projected))"
    using Dropout_forward3_rows [OF attn_combined_shape(2)]
    by (simp add: proj list_all_iff)
  show "length w = length dec_state"
    by (simp add: w proj attn_combined_shape)
  show "\<forall>row\<in>set w. length row = ?n \<and> (\<forall>x\<in>set row. 0 \<le> x) \<and> sum_list row = 1"
    using softmax_rows_distribution [OF n rows] unfolding w by blast
qed

lemma Attention_forward_c_rows:
  assumes "enc_outputs \<noteq> []" and "Attention_forward_c ac keep dec_state enc_outputs = Inr w"
  shows "length w = length dec_state \<and>
         (\<forall>row\<in>set w. length row = length enc_outputs \<and> (\<forall>x\<in>set row. 0 \<le> x) \<and>
            sum_list row = 1)"
proof
  let ?n = "length enc_outputs"
  let ?combined = "map2 (map2 (@)) (map (replicate ?n) dec_state)
                     (permute_102 (length dec_state) enc_outputs)"
  from assms(1) have n: "?n \<noteq> 0" by simp
  from assms(2) obtain projected scores where
    p: "Linear_forward3 (attn_fc1 ac) (Dropout_forward3 (attn_dropout_c ac) keep ?combined)
          = Inr projected"
    and s: "Linear1_forward3 (attn_fc2 ac) (map (map (map tanh)) projected) = Inr scores"
    and w: "w = map softmax scores"
    by (auto simp: Attention_forward_c_def Let_def split: if_splits sum.splits)
  from p have proj: "projected = map (map (linear_apply (attn_fc1 ac)))
                       (Dropout_forward3 (attn_dropout_c ac) keep ?combined)"
    by (auto simp: Linear_forward3_def split: if_splits)
  from s have sc: "scores = map (map (\<lambda>v. dot (weight1 (attn_fc2 ac)) v + bias1 (attn_fc2 ac)))
                     (map (map (map tanh)) projected)"
    by (auto simp: Linear1_forward3_def split: if_splits)
  have rows: "list_all (\<lambda>r. length r = ?n) scores"
    using Dropout_forward3_rows [OF attn_combined_shape(2)]
    by (simp add: sc proj list_all_iff)
  show "length w = length dec_state"
    by (simp add: w sc proj attn_combined_shape)
  show "\<forall>row\<in>set w. length row = ?n \<and> (\<forall>x\<in>set row. 0 \<le> x) \<and> sum_list row = 1"
    using softmax_rows_distribution [OF n rows] unfolding w by blast
qed

lemma combined_empty:
  "map2 (map2 (@)) (map (replicate 0) ds) (permute_102 (length ds) []) = replicate (length ds) []"
  by (rule nth_equalityI) (simp_all add: permute_102_def)

lemma Dropout_forward3_empty_rows:
  "Dropout_forward3 d keep (replicate n []) = replicate n []"
  by (rule nth_equalityI) (simp_all add: Dropout_forward3_def Dropout_forward2_def mapi_def)

lemma Attention_forward_empty:
  "Attention_forward a keep dec_state [] = Inr (replicate (length dec_state) [])"
  by (simp add: Attention_forward_def combined_empty Dropout_forward3_empty_rows
      Linear_forward3_def list_all_iff softmax_def)

lemma Attention_forward_c_empty:
  "Attention_forward_c ac keep dec_state [] = Inr (replicate (length dec_state) [])"
  by (simp add: Attention_forward_c_def combined_empty Dropout_forward3_empty_rows
      Linear_forward3_def Linear1_forward3_def list_all_iff softmax_def)

text \<open>
  C1 (as amended). For a source of at least one position, the weights returned by
  \<open>Attention.forward\<close> have one row per batch element, each row has one entry per source
  position, every entry is non-negative and each row sums to 1; this holds for the
  summation variant and for the learned-projection variant, whatever the dropout mask. For a
  source of no position both variants return one empty row per batch element.
\<close>

theorem attention_weights_distribution:
  assumes "enc_outputs \<noteq> []"
  shows "(\<forall>w. Attention_forward a keep dec_state enc_outputs = Inr w \<longrightarrow>
            length w = length dec_state \<and>
            (\<forall>row\<in>set w. length row = length enc_outputs \<and> (\<forall>x\<in>set row. 0 \<le> x) \<and>
               sum_list row = 1)) \<and>
         (\<forall>w. Attention_forward_c ac keep dec_state enc_outputs = Inr w \<longrightarrow>
            length w = length dec_state \<and>
            (\<forall>row\<in>set w. length row = length enc_outputs \<and> (\<forall>x\<in>set row. 0 \<le> x) \<and>
               sum_list row = 1)) \<and>
         Attention_forward a keep dec_state [] = Inr (replicate (length dec_state) []) \<and>
         Attention_forward_c ac keep dec_state [] = Inr (replicate (length dec_state) [])"
  using Attention_forward_rows [OF assms] Attention_forward_c_rows [OF assms]
  by (simp add: Attention_forward_empty Attention_forward_c_empty)

text \<open>A run on two source positions: both variants return the uniform weights.\<close>

theorem attention_weights_distribution_witness:
  "Attention_forward ex_attention keep_all [[0]] [[[1, 1]], [[0, 0]]] = Inr [[1 / 2, 1 / 2]] \<and>
   Attention_forward_c ex_attention_c keep_all [[0]] [[[1, 1]], [[0, 0]]] = Inr [[1 / 2, 1 / 2]] \<and>
   sum_list [1 / 2, 1 / 2 :: real] = 1"
  using attention_weights_distribution [of "[[[1, 1]], [[0, 0]]]" ex_attention keep_all "[[0]]"
      ex_attention_c]
  by (simp add: Attention_forward_def Attention_forward_c_def ex_defs layer_defs)

text \<open>On a source of length zero both variants return one empty row per batch element,
  and an empty row sums to 0.\<close>

theorem attention_empty_source_counterexample:
  "Attention_forward ex_attention keep_all [[0]] [] = Inr [[]] \<and>
   Attention_forward_c ex_attention_c keep_all [[0]] [] = Inr [[]] \<and>
   sum_list ([] :: real list) \<noteq> 1"
  by (simp add: Attention_forward_def Attention_forward_c_def ex_defs layer_defs)

section \<open>The decode loop\<close>

lemma decode_step_Inr:
  assumes "decode_step m rnd enc tgt tf B t s = Inr s'"
  shows "\<exists>logits. rs_outputs s' = (rs_outputs s)[t := logits] \<and>
           rs_fed s' = rs_fed s @ [rs_out s] \<and>
           length logits = B \<and> list_all (\<lambda>r. length r = target_vocab_size m) logits \<and>
           (if tf_draw rnd t < tf then rs_out s' = tgt ! t
            else max_indices logits = Inr (rs_out s'))"
  using assms
  by (auto simp: decode_step_def Let_def split: sum.splits prod.splits if_splits)



lemma rollout_outputs:
  assumes "rollout m rnd enc tgt tf B ts s = Inr s'"
  shows "length (rs_outputs s') = length (rs_outputs s) \<and>
         (\<forall>i. i \<notin> set ts \<longrightarrow> rs_outputs s' ! i = rs_outputs s ! i)"
  using assms
proof (induction ts arbitrary: s)
  case Nil
  then show ?case by simp
next
  case (Cons t ts)
  from Cons.prems obtain s1 where s1: "decode_step m rnd enc tgt tf B t s = Inr s1"
    and r: "rollout m rnd enc tgt tf B ts s1 = Inr s'"
    by (auto split: sum.splits)
  from decode_step_Inr [OF s1] obtain logits where
    "rs_outputs s1 = (rs_outputs s)[t := logits]" by blast
  with Cons.IH [OF r] show ?case by auto
qed

lemma rollout_fed_length:
  assumes "rollout m rnd enc tgt tf B ts s = Inr s'"
  shows "length (rs_fed s') = length (rs_fed s) + length ts"
  using assms
proof (induction ts arbitrary: s)
  case Nil
  then show ?case by simp
next
  case (Cons t ts)
  from Cons.prems obtain s1 where s1: "decode_step m rnd enc tgt tf B t s = Inr s1"
    and r: "rollout m rnd enc tgt tf B ts s1 = Inr s'"
    by (auto split: sum.splits)
  from decode_step_Inr [OF s1] have "rs_fed s1 = rs_fed s @ [rs_out s]" by blast
  with Cons.IH [OF r] show ?case by simp
qed

text \<open>When every draw chooses the ground truth, the tokens passed to the decoder and the
  last value of \<open>out\<close> are the initial token followed by the target rows of the steps.\<close>

lemma rollout_forced:
  assumes "rollout m rnd enc tgt tf B ts s = Inr s'"
    and "\<forall>t. tf_draw rnd t < tf"
  shows "rs_fed s' @ [rs_out s'] = rs_fed s @ rs_out s # map (\<lambda>t. tgt ! t) ts"
  using assms(1)
proof (induction ts arbitrary: s)
  case Nil
  then show ?case by simp
next
  case (Cons t ts)
  from Cons.prems obtain s1 where s1: "decode_step m rnd enc tgt tf B t s = Inr s1"
    and r: "rollout m rnd enc tgt tf B ts s1 = Inr s'"
    by (auto split: sum.splits)
  from decode_step_Inr [OF s1] assms(2)
  have "rs_fed s1 = rs_fed s @ [rs_out s]" "rs_out s1 = tgt ! t" by auto
  with Cons.IH [OF r] show ?case by simp
qed

text \<open>When no draw chooses the ground truth, each token after the first is the arg-max of
  the logits stored at the step before.\<close>

lemma rollout_free:
  assumes "rollout m rnd enc tgt tf B ts s = Inr s'"
    and "\<forall>t. \<not> tf_draw rnd t < tf"
    and "distinct ts" and "\<forall>t\<in>set ts. t < length (rs_outputs s)"
  shows "\<exists>preds. rs_fed s' @ [rs_out s'] = rs_fed s @ rs_out s # preds \<and>
           map (\<lambda>t. max_indices (rs_outputs s' ! t)) ts = map Inr preds"
  using assms(1,3,4)
proof (induction ts arbitrary: s)
  case Nil
  then show ?case by simp
next
  case (Cons t ts)
  from Cons.prems obtain s1 where s1: "decode_step m rnd enc tgt tf B t s = Inr s1"
    and r: "rollout m rnd enc tgt tf B ts s1 = Inr s'"
    by (auto split: sum.splits)
  from decode_step_Inr [OF s1] assms(2) obtain logits where
    l: "rs_outputs s1 = (rs_outputs s)[t := logits]" "rs_fed s1 = rs_fed s @ [rs_out s]"
       "max_indices logits = Inr (rs_out s1)" by auto
  from Cons.prems have t: "t \<notin> set ts" "t < length (rs_outputs s)" by auto
  from rollout_outputs [OF r] t l(1) have o: "rs_outputs s' ! t = logits" by simp
  from Cons.prems l(1) have "distinct ts" "\<forall>t\<in>set ts. t < length (rs_outputs s1)" by auto
  from Cons.IH [OF r this] obtain preds where
    p: "rs_fed s' @ [rs_out s'] = rs_fed s1 @ rs_out s1 # preds"
       "map (\<lambda>t. max_indices (rs_outputs s' ! t)) ts = map Inr preds" by blast
  show ?case
    by (rule exI [of _ "rs_out s1 # preds"]) (simp add: p l o)
qed

lemma forward_run_Inr:
  assumes "forward_run m rnd source target tf = Inr s"
  shows "\<exists>enc_outputs state out rest. target = out # rest \<and>
           Encoder_forward (ed_encoder m) (enc_keep rnd) source = Inr (enc_outputs, state) \<and>
           rollout m rnd enc_outputs target tf (width source) [1..<length target]
             \<lparr>rs_outputs = replicate (length target)
                 (replicate (width source) (replicate (target_vocab_size m) 0)),
              rs_out = out, rs_state = state, rs_fed = []\<rparr> = Inr s"
  using assms
  by (auto simp: forward_run_def Let_def split: sum.splits prod.splits list.splits)

lemma rollout_fed_prefix:
  assumes "rollout m rnd enc tgt tf B ts s = Inr s'"
  shows "\<exists>rest. rs_fed s' @ [rs_out s'] = rs_fed s @ rs_out s # rest"
  using assms
proof (induction ts arbitrary: s)
  case Nil
  then show ?case by simp
next
  case (Cons t ts)
  from Cons.prems obtain s1 where s1: "decode_step m rnd enc tgt tf B t s = Inr s1"
    and r: "rollout m rnd enc tgt tf B ts s1 = Inr s'"
    by (auto split: sum.splits)
  from decode_step_Inr [OF s1] have "rs_fed s1 = rs_fed s @ [rs_out s]" by blast
  with Cons.IH [OF r] show ?case by auto
qed

lemma forward_run_seed:
  assumes "forward_run m rnd source target tf = Inr s" and "1 < length target"
  shows "rs_fed s ! 0 = target ! 0"
proof -
  from forward_run_Inr [OF assms(1)] obtain enc_outputs state out rest where
    t: "target = out # rest" and
    r: "rollout m rnd enc_outputs target tf (width source) [1..<length target]
          \<lparr>rs_outputs = replicate (length target)
              (replicate (width source) (replicate (target_vocab_size m) 0)),
           rs_out = out, rs_state = state, rs_fed = []\<rparr> = Inr s"
    by blast
  from rollout_fed_prefix [OF r] obtain xs where xs: "rs_fed s @ [rs_out s] = out # xs"
    by auto
  from rollout_fed_length [OF r] assms(2) have "rs_fed s \<noteq> []" by auto
  then have "(rs_fed s @ [rs_out s]) ! 0 = rs_fed s ! 0" by (simp add: nth_append)
  with xs t show ?thesis by simp
qed

lemma argmax_from_max:
  assumes "best < length pre" and "v = pre ! best" and "i = length pre" and "\<forall>x\<in>set pre. x \<le> v"
  shows "argmax_from best v i xs < length (pre @ xs) \<and>
         (\<forall>x\<in>set (pre @ xs). x \<le> (pre @ xs) ! argmax_from best v i xs)"
  using assms
proof (induction xs arbitrary: pre best v i)
  case Nil
  then show ?case by simp
next
  case (Cons x xs)
  show ?case
  proof (cases "v < x")
    case True
    have "argmax_from (length pre) x (Suc (length pre)) xs < length ((pre @ [x]) @ xs) \<and>
          (\<forall>y\<in>set ((pre @ [x]) @ xs). y \<le> ((pre @ [x]) @ xs) ! argmax_from (length pre) x (Suc (length pre)) xs)"
      using Cons.prems True by (intro Cons.IH) (auto simp: nth_append intro: less_imp_le order_trans)
    with True Cons.prems(3) show ?thesis by simp
  next
    case False
    have "argmax_from best v (Suc (length pre)) xs < length ((pre @ [x]) @ xs) \<and>
          (\<forall>y\<in>set ((pre @ [x]) @ xs). y \<le> ((pre @ [x]) @ xs) ! argmax_from best v (Suc (length pre)) xs)"
      using Cons.prems False by (intro Cons.IH) (auto simp: nth_append)
    with False Cons.prems(3) show ?thesis by simp
  qed
qed

lemma argmax_max:
  assumes "r \<noteq> []"
  shows "argmax r < length r \<and> (\<forall>x\<in>set r. x \<le> r ! argmax r)"
proof -
  from assms obtain x xs where r: "r = x # xs" by (cases r) auto
  from argmax_from_max [of 0 "[x]" x 1 xs] show ?thesis
    by (simp add: r argmax_def)
qed

lemma max_indices_max:
  assumes "max_indices logits = Inr pred" and "b < length logits"
  shows "0 \<le> pred ! b \<and> nat (pred ! b) < length (logits ! b) \<and>
         (\<forall>x\<in>set (logits ! b). x \<le> logits ! b ! nat (pred ! b))"
proof -
  from assms have "logits ! b \<noteq> []" "pred ! b = int (argmax (logits ! b))"
    by (auto simp: max_indices_def list_all_length split: if_splits)
  with argmax_max [of "logits ! b"] show ?thesis by simp
qed

section \<open>Teacher forcing\<close>

text \<open>What the decoder is called on. At step \<open>t\<close> of a run that returns, the decoder is applied
  to the value of \<open>out\<close> and the state left by the steps before, and its logits are what the
  run returns at \<open>outputs[t]\<close>.\<close>

lemma decode_step_call:
  assumes "decode_step m rnd enc tgt tf B t s = Inr s'"
  shows "\<exists>context logits state'.
           compute_context m (attn_keep rnd t) (rs_state s) enc = Inr context \<and>
           Decoder_forward (ed_decoder m) (dec_keep rnd t) (rs_out s) (rs_state s) context
             = Inr (logits, state') \<and>
           rs_outputs s' = (rs_outputs s)[t := logits] \<and> rs_state s' = state' \<and>
           (if tf_draw rnd t < tf then rs_out s' = tgt ! t
            else max_indices logits = Inr (rs_out s'))"
  using assms
  by (auto simp: decode_step_def Let_def split: sum.splits prod.splits if_splits)

lemma rollout_append:
  "rollout m rnd enc tgt tf B (xs @ ys) s =
     (case rollout m rnd enc tgt tf B xs s of
        Inl err \<Rightarrow> Inl err
      | Inr s1 \<Rightarrow> rollout m rnd enc tgt tf B ys s1)"
  by (induction xs arbitrary: s) (auto split: sum.splits)

lemma rollout_step_at:
  assumes r: "rollout m rnd enc tgt tf B [a..<b] s0 = Inr s"
    and t: "a \<le> t" "t < b" and len: "b \<le> length (rs_outputs s0)"
  shows "\<exists>prev context logits state'.
           rollout m rnd enc tgt tf B [a..<t] s0 = Inr prev \<and>
           compute_context m (attn_keep rnd t) (rs_state prev) enc = Inr context \<and>
           Decoder_forward (ed_decoder m) (dec_keep rnd t) (rs_out prev) (rs_state prev) context
             = Inr (logits, state') \<and>
           rs_outputs s ! t = logits \<and>
           rollout m rnd enc tgt tf B [t..<b] prev = Inr s"
proof -
  from t have sp: "[a..<b] = [a..<t] @ t # [Suc t..<b]"
    by (metis le_add_diff_inverse less_imp_le_nat upt_add_eq_append upt_conv_Cons)
  from r obtain prev s1 where
    p: "rollout m rnd enc tgt tf B [a..<t] s0 = Inr prev"
    and d: "decode_step m rnd enc tgt tf B t prev = Inr s1"
    and q: "rollout m rnd enc tgt tf B [Suc t..<b] s1 = Inr s"
    unfolding sp rollout_append by (auto split: sum.splits)
  from decode_step_call [OF d] obtain ctx logits state' where
    c: "compute_context m (attn_keep rnd t) (rs_state prev) enc = Inr ctx"
    and f: "Decoder_forward (ed_decoder m) (dec_keep rnd t) (rs_out prev) (rs_state prev) ctx
             = Inr (logits, state')"
    and o: "rs_outputs s1 = (rs_outputs prev)[t := logits]"
    by blast
  from rollout_outputs [OF p] have "length (rs_outputs prev) = length (rs_outputs s0)" by simp
  with t len have "t < length (rs_outputs prev)" by simp
  with o have "rs_outputs s1 ! t = logits" by simp
  moreover from rollout_outputs [OF q] have "rs_outputs s ! t = rs_outputs s1 ! t" by simp
  ultimately have "rs_outputs s ! t = logits" by simp
  moreover from t d q have "rollout m rnd enc tgt tf B [t..<b] prev = Inr s"
    by (simp add: upt_conv_Cons)
  ultimately show ?thesis using p c f by blast
qed

lemma rollout_forced_out:
  assumes "rollout m rnd enc tgt tf B ts s = Inr s'" and "\<forall>t. tf_draw rnd t < tf"
  shows "rs_out s' = (if ts = [] then rs_out s else tgt ! last ts)"
  using assms(1)
proof (induction ts arbitrary: s)
  case Nil
  then show ?case by simp
next
  case (Cons t ts)
  from Cons.prems obtain s1 where s1: "decode_step m rnd enc tgt tf B t s = Inr s1"
    and r: "rollout m rnd enc tgt tf B ts s1 = Inr s'"
    by (auto split: sum.splits)
  from decode_step_call [OF s1] assms(2) have "rs_out s1 = tgt ! t" by auto
  with Cons.IH [OF r] show ?case by simp
qed

lemma rollout_free_out:
  assumes r: "rollout m rnd enc tgt tf B [a..<Suc t] s0 = Inr prev" and "\<forall>t. \<not> tf_draw rnd t < tf"
    and t: "a \<le> t" and len: "t < length (rs_outputs s0)"
  shows "max_indices (rs_outputs prev ! t) = Inr (rs_out prev)"
proof -
  from t have sp: "[a..<Suc t] = [a..<t] @ [t]" by simp
  from r obtain p2 where
    p: "rollout m rnd enc tgt tf B [a..<t] s0 = Inr p2"
    and d: "decode_step m rnd enc tgt tf B t p2 = Inr prev"
    unfolding sp rollout_append by (auto split: sum.splits)
  from decode_step_call [OF d] assms(2) obtain logits where
    o: "rs_outputs prev = (rs_outputs p2)[t := logits]" and mx: "max_indices logits = Inr (rs_out prev)"
    by auto
  from rollout_outputs [OF p] len have "t < length (rs_outputs p2)" by simp
  with o mx show ?thesis by simp
qed

lemma forward_run_entry:
  assumes "forward_run m rnd source target tf = Inr s"
  shows "\<exists>enc_outputs state0. target \<noteq> [] \<and>
           Encoder_forward (ed_encoder m) (enc_keep rnd) source = Inr (enc_outputs, state0) \<and>
           rollout m rnd enc_outputs target tf (width source) [1..<length target]
             (loop_entry m source target state0) = Inr s"
proof -
  from forward_run_Inr [OF assms] obtain enc_outputs state0 out rest where
    "target = out # rest"
    "Encoder_forward (ed_encoder m) (enc_keep rnd) source = Inr (enc_outputs, state0)"
    "rollout m rnd enc_outputs target tf (width source) [1..<length target]
          \<lparr>rs_outputs = replicate (length target)
              (replicate (width source) (replicate (target_vocab_size m) 0)),
           rs_out = out, rs_state = state0, rs_fed = []\<rparr> = Inr s"
    by blast
  then show ?thesis
    by (auto simp: loop_entry_def)
qed

lemma forward_run_step:
  assumes "forward_run m rnd source target tf = Inr s"
  shows "\<exists>enc_outputs state0.
           Encoder_forward (ed_encoder m) (enc_keep rnd) source = Inr (enc_outputs, state0) \<and>
           (\<forall>t. 1 \<le> t \<and> t < length target \<longrightarrow>
              (\<exists>prev ctx logits state'.
                 at_step m rnd enc_outputs state0 source target tf t = Inr prev \<and>
                 compute_context m (attn_keep rnd t) (rs_state prev) enc_outputs = Inr ctx \<and>
                 Decoder_forward (ed_decoder m) (dec_keep rnd t) (rs_out prev) (rs_state prev) ctx
                   = Inr (logits, state') \<and>
                 rs_outputs s ! t = logits \<and>
                 rollout m rnd enc_outputs target tf (width source) [t..<length target] prev
                   = Inr s))"
proof -
  from forward_run_entry [OF assms] obtain enc_outputs state0 where
    e: "Encoder_forward (ed_encoder m) (enc_keep rnd) source = Inr (enc_outputs, state0)"
    and r: "rollout m rnd enc_outputs target tf (width source) [1..<length target]
             (loop_entry m source target state0) = Inr s"
    by blast
  have "\<exists>prev ctx logits state'.
          at_step m rnd enc_outputs state0 source target tf t = Inr prev \<and>
          compute_context m (attn_keep rnd t) (rs_state prev) enc_outputs = Inr ctx \<and>
          Decoder_forward (ed_decoder m) (dec_keep rnd t) (rs_out prev) (rs_state prev) ctx
            = Inr (logits, state') \<and>
          rs_outputs s ! t = logits \<and>
          rollout m rnd enc_outputs target tf (width source) [t..<length target] prev = Inr s"
    if t: "1 \<le> t \<and> t < length target" for t
    unfolding at_step_def
    using t by (intro rollout_step_at [OF r]) (simp_all add: loop_entry_def)
  with e show ?thesis by blast
qed

lemma seed_token_consumed:
  assumes "forward_run m rnd source target tf = Inr s" and "1 < length target"
  shows "\<exists>enc_outputs state0 ctx logits state'.
           Encoder_forward (ed_encoder m) (enc_keep rnd) source = Inr (enc_outputs, state0) \<and>
           compute_context m (attn_keep rnd 1) state0 enc_outputs = Inr ctx \<and>
           Decoder_forward (ed_decoder m) (dec_keep rnd 1) (target ! 0) state0 ctx
             = Inr (logits, state') \<and>
           rs_outputs s ! 1 = logits"
proof -
  from forward_run_step [OF assms(1)] obtain enc_outputs state0 where
    e: "Encoder_forward (ed_encoder m) (enc_keep rnd) source = Inr (enc_outputs, state0)"
    and st: "\<And>t. 1 \<le> t \<and> t < length target \<Longrightarrow>
              \<exists>prev ctx logits state'.
                 at_step m rnd enc_outputs state0 source target tf t = Inr prev \<and>
                 compute_context m (attn_keep rnd t) (rs_state prev) enc_outputs = Inr ctx \<and>
                 Decoder_forward (ed_decoder m) (dec_keep rnd t) (rs_out prev) (rs_state prev) ctx
                   = Inr (logits, state') \<and>
                 rs_outputs s ! t = logits \<and>
                 rollout m rnd enc_outputs target tf (width source) [t..<length target] prev
                   = Inr s"
    by blast
  from assms(2) have "1 \<le> (1::nat) \<and> 1 < length target" by simp
  from st [OF this] e show ?thesis
    by (auto simp: at_step_def loop_entry_def)
qed

lemma decoder_calls_forced:
  assumes "unit_draws rnd" and "forward_run m rnd source target 1 = Inr s"
  shows "(\<exists>enc_outputs state0.
            Encoder_forward (ed_encoder m) (enc_keep rnd) source = Inr (enc_outputs, state0) \<and>
            (\<forall>t. 1 \<le> t \<and> t < length target \<longrightarrow>
               (\<exists>prev ctx logits state'.
                  at_step m rnd enc_outputs state0 source target 1 t = Inr prev \<and>
                  compute_context m (attn_keep rnd t) (rs_state prev) enc_outputs = Inr ctx \<and>
                  Decoder_forward (ed_decoder m) (dec_keep rnd t) (target ! (t - 1))
                    (rs_state prev) ctx = Inr (logits, state') \<and>
                  rs_outputs s ! t = logits)))"
proof -
  from assms(1) have forced: "\<forall>t. tf_draw rnd t < 1" by (simp add: unit_draws_def)
  from forward_run_step [OF assms(2)] obtain enc_outputs state0 where
    e: "Encoder_forward (ed_encoder m) (enc_keep rnd) source = Inr (enc_outputs, state0)"
    and st: "\<And>t. 1 \<le> t \<and> t < length target \<Longrightarrow>
              \<exists>prev ctx logits state'.
                 at_step m rnd enc_outputs state0 source target 1 t = Inr prev \<and>
                 compute_context m (attn_keep rnd t) (rs_state prev) enc_outputs = Inr ctx \<and>
                 Decoder_forward (ed_decoder m) (dec_keep rnd t) (rs_out prev) (rs_state prev) ctx
                   = Inr (logits, state') \<and>
                 rs_outputs s ! t = logits \<and>
                 rollout m rnd enc_outputs target 1 (width source) [t..<length target] prev
                   = Inr s"
    by blast
  have "\<exists>prev ctx logits state'.
          at_step m rnd enc_outputs state0 source target 1 t = Inr prev \<and>
          compute_context m (attn_keep rnd t) (rs_state prev) enc_outputs = Inr ctx \<and>
          Decoder_forward (ed_decoder m) (dec_keep rnd t) (target ! (t - 1)) (rs_state prev) ctx
            = Inr (logits, state') \<and>
          rs_outputs s ! t = logits"
    if t: "1 \<le> t \<and> t < length target" for t
  proof -
    from st [OF t] obtain prev ctx logits state' where
      p: "at_step m rnd enc_outputs state0 source target 1 t = Inr prev"
      and c: "compute_context m (attn_keep rnd t) (rs_state prev) enc_outputs = Inr ctx"
      and f: "Decoder_forward (ed_decoder m) (dec_keep rnd t) (rs_out prev) (rs_state prev) ctx
                = Inr (logits, state')"
      and o: "rs_outputs s ! t = logits"
      by blast
    from rollout_forced_out [OF p [unfolded at_step_def] forced]
    have "rs_out prev = (if [1..<t] = [] then target ! 0 else target ! last [1..<t])"
      by (simp add: loop_entry_def)
    also have "\<dots> = target ! (t - 1)"
    proof (cases "t = 1")
      case True
      then show ?thesis by simp
    next
      case False
      with t obtain k where k: "t = Suc k" "1 \<le> k" by (cases t) auto
      then have "[1..<t] = [1..<k] @ [k]" by simp
      with k show ?thesis by simp
    qed
    finally have "rs_out prev = target ! (t - 1)" .
    with p c f o show ?thesis by auto
  qed
  note step = this
  show ?thesis
  proof (rule exI [of _ enc_outputs], rule exI [of _ state0], intro conjI allI impI)
    show "Encoder_forward (ed_encoder m) (enc_keep rnd) source = Inr (enc_outputs, state0)"
      by (rule e)
  next
    fix t assume "1 \<le> t \<and> t < length target"
    then show "\<exists>prev ctx logits state'.
          at_step m rnd enc_outputs state0 source target 1 t = Inr prev \<and>
          compute_context m (attn_keep rnd t) (rs_state prev) enc_outputs = Inr ctx \<and>
          Decoder_forward (ed_decoder m) (dec_keep rnd t) (target ! (t - 1)) (rs_state prev) ctx
            = Inr (logits, state') \<and>
          rs_outputs s ! t = logits"
      by (rule step)
  qed
qed

lemma decoder_calls_free:
  assumes "unit_draws rnd" and "forward_run m rnd source target 0 = Inr s"
  shows "(\<exists>enc_outputs state0.
            Encoder_forward (ed_encoder m) (enc_keep rnd) source = Inr (enc_outputs, state0) \<and>
            (1 < length target \<longrightarrow>
               (\<exists>ctx logits state'.
                  compute_context m (attn_keep rnd 1) state0 enc_outputs = Inr ctx \<and>
                  Decoder_forward (ed_decoder m) (dec_keep rnd 1) (target ! 0) state0 ctx
                    = Inr (logits, state') \<and>
                  rs_outputs s ! 1 = logits)) \<and>
            (\<forall>t. 2 \<le> t \<and> t < length target \<longrightarrow>
               (\<exists>prev pred ctx logits state'.
                  at_step m rnd enc_outputs state0 source target 0 t = Inr prev \<and>
                  max_indices (rs_outputs s ! (t - 1)) = Inr pred \<and>
                  compute_context m (attn_keep rnd t) (rs_state prev) enc_outputs = Inr ctx \<and>
                  Decoder_forward (ed_decoder m) (dec_keep rnd t) pred (rs_state prev) ctx
                    = Inr (logits, state') \<and>
                  rs_outputs s ! t = logits)))"
proof -
  from assms(1) have free: "\<forall>t. \<not> tf_draw rnd t < 0" by (simp add: unit_draws_def not_less)
  from forward_run_step [OF assms(2)] obtain enc_outputs state0 where
    e: "Encoder_forward (ed_encoder m) (enc_keep rnd) source = Inr (enc_outputs, state0)"
    and st: "\<And>t. 1 \<le> t \<and> t < length target \<Longrightarrow>
              \<exists>prev ctx logits state'.
                 at_step m rnd enc_outputs state0 source target 0 t = Inr prev \<and>
                 compute_context m (attn_keep rnd t) (rs_state prev) enc_outputs = Inr ctx \<and>
                 Decoder_forward (ed_decoder m) (dec_keep rnd t) (rs_out prev) (rs_state prev) ctx
                   = Inr (logits, state') \<and>
                 rs_outputs s ! t = logits \<and>
                 rollout m rnd enc_outputs target 0 (width source) [t..<length target] prev
                   = Inr s"
    by blast
  have first: "\<exists>ctx logits state'.
       compute_context m (attn_keep rnd 1) state0 enc_outputs = Inr ctx \<and>
       Decoder_forward (ed_decoder m) (dec_keep rnd 1) (target ! 0) state0 ctx = Inr (logits, state') \<and>
       rs_outputs s ! 1 = logits" if "1 < length target"
  proof -
    from that have "1 \<le> (1::nat) \<and> 1 < length target" by simp
    from st [OF this] show ?thesis
      by (auto simp: at_step_def loop_entry_def)
  qed
  have later: "\<exists>prev pred ctx logits state'.
       at_step m rnd enc_outputs state0 source target 0 t = Inr prev \<and>
       max_indices (rs_outputs s ! (t - 1)) = Inr pred \<and>
       compute_context m (attn_keep rnd t) (rs_state prev) enc_outputs = Inr ctx \<and>
       Decoder_forward (ed_decoder m) (dec_keep rnd t) pred (rs_state prev) ctx = Inr (logits, state') \<and>
       rs_outputs s ! t = logits" if t: "2 \<le> t \<and> t < length target" for t
  proof -
    from t have "1 \<le> t \<and> t < length target" by simp
    from st [OF this] obtain prev ctx logits state' where
      p: "at_step m rnd enc_outputs state0 source target 0 t = Inr prev"
      and c: "compute_context m (attn_keep rnd t) (rs_state prev) enc_outputs = Inr ctx"
      and f: "Decoder_forward (ed_decoder m) (dec_keep rnd t) (rs_out prev) (rs_state prev) ctx
                = Inr (logits, state')"
      and o: "rs_outputs s ! t = logits"
      and q: "rollout m rnd enc_outputs target 0 (width source) [t..<length target] prev = Inr s"
      by blast
    from t have suc: "t = Suc (t - 1)" "1 \<le> t - 1" by auto
    from p have p': "rollout m rnd enc_outputs target 0 (width source) [1..<Suc (t - 1)]
                       (loop_entry m source target state0) = Inr prev"
      unfolding at_step_def using suc(1) by simp
    have "max_indices (rs_outputs prev ! (t - 1)) = Inr (rs_out prev)"
      using t by (intro rollout_free_out [OF p' free suc(2)]) (auto simp: loop_entry_def)
    moreover have "t - 1 \<notin> set [t..<length target]" using t by auto
    with rollout_outputs [OF q] have "rs_outputs s ! (t - 1) = rs_outputs prev ! (t - 1)"
      by blast
    ultimately have "max_indices (rs_outputs s ! (t - 1)) = Inr (rs_out prev)" by simp
    with p c f o show ?thesis by blast
  qed
  show ?thesis
  proof (rule exI [of _ enc_outputs], rule exI [of _ state0], intro conjI allI impI)
    show "Encoder_forward (ed_encoder m) (enc_keep rnd) source = Inr (enc_outputs, state0)"
      by (rule e)
  next
    assume "1 < length target"
    then show "\<exists>ctx logits state'.
       compute_context m (attn_keep rnd 1) state0 enc_outputs = Inr ctx \<and>
       Decoder_forward (ed_decoder m) (dec_keep rnd 1) (target ! 0) state0 ctx = Inr (logits, state') \<and>
       rs_outputs s ! 1 = logits"
      by (rule first)
  next
    fix t assume "2 \<le> t \<and> t < length target"
    then show "\<exists>prev pred ctx logits state'.
       at_step m rnd enc_outputs state0 source target 0 t = Inr prev \<and>
       max_indices (rs_outputs s ! (t - 1)) = Inr pred \<and>
       compute_context m (attn_keep rnd t) (rs_state prev) enc_outputs = Inr ctx \<and>
       Decoder_forward (ed_decoder m) (dec_keep rnd t) pred (rs_state prev) ctx = Inr (logits, state') \<and>
       rs_outputs s ! t = logits"
      by (rule later)
  qed
qed

text \<open>The same on the record of passed tokens.\<close>

lemma fed_tokens_forced:
  assumes "unit_draws rnd" and "forward_run m rnd source target 1 = Inr s"
  shows "rs_fed s = butlast target \<and>
         (\<forall>t. 1 \<le> t \<and> t < length target \<longrightarrow> rs_fed s ! (t - 1) = target ! (t - 1)) \<and>
         (\<forall>tf s'. forward_run m rnd source target tf = Inr s' \<and> 1 < length target \<longrightarrow>
            rs_fed s' ! 0 = target ! 0)"
proof -
  from forward_run_Inr [OF assms(2)] obtain enc_outputs state out rest where
    t: "target = out # rest" and
    r: "rollout m rnd enc_outputs target 1 (width source) [1..<length target]
          \<lparr>rs_outputs = replicate (length target)
              (replicate (width source) (replicate (target_vocab_size m) 0)),
           rs_out = out, rs_state = state, rs_fed = []\<rparr> = Inr s"
    by blast
  from assms(1) have "\<forall>t. tf_draw rnd t < 1" by (simp add: unit_draws_def)
  from rollout_forced [OF r this]
  have "rs_fed s @ [rs_out s] = out # map (\<lambda>t. target ! t) [1..<length target]" by simp
  also have "\<dots> = map (\<lambda>t. target ! t) [0..<length target]"
    by (simp add: t upt_conv_Cons del: upt_Suc)
  also have "\<dots> = target" by (rule map_nth)
  finally have eq: "rs_fed s @ [rs_out s] = target" .
  then have fed: "rs_fed s = butlast target" by (metis butlast_snoc)
  show ?thesis
  proof (intro conjI allI impI)
    show "rs_fed s = butlast target" by (rule fed)
  next
    fix t assume "1 \<le> t \<and> t < length target"
    then show "rs_fed s ! (t - 1) = target ! (t - 1)"
      by (auto simp: fed nth_butlast)
  next
    fix tf s' assume "forward_run m rnd source target tf = Inr s' \<and> 1 < length target"
    then have "forward_run m rnd source target tf = Inr s'" and "1 < length target"
      by simp_all
    then show "rs_fed s' ! 0 = target ! 0"
      by (rule forward_run_seed)
  qed
qed

lemma fed_tokens_free:
  assumes "unit_draws rnd" and "forward_run m rnd source target 0 = Inr s"
  shows "length (rs_fed s) = length target - 1 \<and>
         (1 < length target \<longrightarrow> rs_fed s ! 0 = target ! 0) \<and>
         (\<forall>t. 2 \<le> t \<and> t < length target \<longrightarrow>
            max_indices (rs_outputs s ! (t - 1)) = Inr (rs_fed s ! (t - 1)) \<and>
            (\<forall>b<length (rs_outputs s ! (t - 1)).
               0 \<le> rs_fed s ! (t - 1) ! b \<and>
               nat (rs_fed s ! (t - 1) ! b) < length (rs_outputs s ! (t - 1) ! b) \<and>
               (\<forall>x\<in>set (rs_outputs s ! (t - 1) ! b).
                  x \<le> rs_outputs s ! (t - 1) ! b ! nat (rs_fed s ! (t - 1) ! b))))"
proof -
  from forward_run_Inr [OF assms(2)] obtain enc_outputs state out rest where
    t: "target = out # rest" and
    r: "rollout m rnd enc_outputs target 0 (width source) [1..<length target]
          \<lparr>rs_outputs = replicate (length target)
              (replicate (width source) (replicate (target_vocab_size m) 0)),
           rs_out = out, rs_state = state, rs_fed = []\<rparr> = Inr s"
    by blast
  from assms(1) have nf: "\<forall>t. \<not> tf_draw rnd t < 0" by (simp add: unit_draws_def not_less)
  from rollout_fed_length [OF r] have len: "length (rs_fed s) = length target - 1" by simp
  from rollout_free [OF r nf] obtain preds where
    p: "rs_fed s @ [rs_out s] = out # preds"
       "map (\<lambda>t. max_indices (rs_outputs s ! t)) [1..<length target] = map Inr preds"
    by auto
  from p(2) have lp: "length preds = length target - 1"
    by (metis length_map length_upt)
  have first: "1 < length target \<longrightarrow> rs_fed s ! 0 = target ! 0"
  proof
    assume "1 < length target"
    with len have "rs_fed s \<noteq> []" by auto
    then have "(rs_fed s @ [rs_out s]) ! 0 = rs_fed s ! 0" by (simp add: nth_append)
    with p(1) t show "rs_fed s ! 0 = target ! 0" by simp
  qed
  have step: "max_indices (rs_outputs s ! (k - 1)) = Inr (rs_fed s ! (k - 1))"
    if k: "2 \<le> k \<and> k < length target" for k
  proof -
    from k have i: "k - 2 < length [1..<length target]" by auto
    have "map (\<lambda>t. max_indices (rs_outputs s ! t)) [1..<length target] ! (k - 2)
            = map Inr preds ! (k - 2)" by (simp only: p(2))
    with i k lp have "max_indices (rs_outputs s ! (k - 1)) = Inr (preds ! (k - 2))"
      by (simp add: numeral_2_eq_2 Suc_diff_Suc)
    moreover from k len have "k - 1 < length (rs_fed s)" by auto
    then have "(rs_fed s @ [rs_out s]) ! (k - 1) = rs_fed s ! (k - 1)" by (simp add: nth_append)
    with p(1) k have "rs_fed s ! (k - 1) = preds ! (k - 2)"
      by (simp add: nth_Cons' numeral_2_eq_2 Suc_diff_Suc)
    ultimately show ?thesis by simp
  qed
  show ?thesis
    using len first step max_indices_max by blast
qed

text \<open>
  C2. With the teacher-forcing probability 1 (and draws in \<open>[0, 1)\<close>), in a rollout that
  returns, the decoder is called at every step \<open>t = 1 .. target_len - 1\<close> on the token
  \<open>target[t - 1]\<close>, together with the state and the context of that step, and the logits of
  that call are the returned \<open>outputs[t]\<close>; the record of the values of \<open>out\<close> passed to the
  decoder is the target without its last row. Whatever the probability, the first call is on
  the seed \<open>target[0]\<close>.
\<close>

theorem teacher_forcing_one_feeds_target:
  assumes "unit_draws rnd" and "forward_run m rnd source target 1 = Inr s"
  shows "(\<exists>enc_outputs state0.
            Encoder_forward (ed_encoder m) (enc_keep rnd) source = Inr (enc_outputs, state0) \<and>
            (\<forall>t. 1 \<le> t \<and> t < length target \<longrightarrow>
               (\<exists>prev ctx logits state'.
                  at_step m rnd enc_outputs state0 source target 1 t = Inr prev \<and>
                  compute_context m (attn_keep rnd t) (rs_state prev) enc_outputs = Inr ctx \<and>
                  Decoder_forward (ed_decoder m) (dec_keep rnd t) (target ! (t - 1))
                    (rs_state prev) ctx = Inr (logits, state') \<and>
                  rs_outputs s ! t = logits))) \<and>
         (\<forall>tf s'. forward_run m rnd source target tf = Inr s' \<and> 1 < length target \<longrightarrow>
            (\<exists>enc_outputs state0 ctx logits state'.
               Encoder_forward (ed_encoder m) (enc_keep rnd) source = Inr (enc_outputs, state0) \<and>
               compute_context m (attn_keep rnd 1) state0 enc_outputs = Inr ctx \<and>
               Decoder_forward (ed_decoder m) (dec_keep rnd 1) (target ! 0) state0 ctx
                 = Inr (logits, state') \<and>
               rs_outputs s' ! 1 = logits)) \<and>
         (rs_fed s = butlast target \<and>
          (\<forall>t. 1 \<le> t \<and> t < length target \<longrightarrow> rs_fed s ! (t - 1) = target ! (t - 1)) \<and>
          (\<forall>tf s'. forward_run m rnd source target tf = Inr s' \<and> 1 < length target \<longrightarrow>
             rs_fed s' ! 0 = target ! 0))"
proof (intro conjI)
  show "\<exists>enc_outputs state0.
            Encoder_forward (ed_encoder m) (enc_keep rnd) source = Inr (enc_outputs, state0) \<and>
            (\<forall>t. 1 \<le> t \<and> t < length target \<longrightarrow>
               (\<exists>prev ctx logits state'.
                  at_step m rnd enc_outputs state0 source target 1 t = Inr prev \<and>
                  compute_context m (attn_keep rnd t) (rs_state prev) enc_outputs = Inr ctx \<and>
                  Decoder_forward (ed_decoder m) (dec_keep rnd t) (target ! (t - 1))
                    (rs_state prev) ctx = Inr (logits, state') \<and>
                  rs_outputs s ! t = logits))"
    by (rule decoder_calls_forced [OF assms])
  show "\<forall>tf s'. forward_run m rnd source target tf = Inr s' \<and> 1 < length target \<longrightarrow>
            (\<exists>enc_outputs state0 ctx logits state'.
               Encoder_forward (ed_encoder m) (enc_keep rnd) source = Inr (enc_outputs, state0) \<and>
               compute_context m (attn_keep rnd 1) state0 enc_outputs = Inr ctx \<and>
               Decoder_forward (ed_decoder m) (dec_keep rnd 1) (target ! 0) state0 ctx
                 = Inr (logits, state') \<and>
               rs_outputs s' ! 1 = logits)"
  proof (intro allI impI)
    fix tf s' assume "forward_run m rnd source target tf = Inr s' \<and> 1 < length target"
    then have "forward_run m rnd source target tf = Inr s'" and "1 < length target"
      by simp_all
    then show "\<exists>enc_outputs state0 ctx logits state'.
               Encoder_forward (ed_encoder m) (enc_keep rnd) source = Inr (enc_outputs, state0) \<and>
               compute_context m (attn_keep rnd 1) state0 enc_outputs = Inr ctx \<and>
               Decoder_forward (ed_decoder m) (dec_keep rnd 1) (target ! 0) state0 ctx
                 = Inr (logits, state') \<and>
               rs_outputs s' ! 1 = logits"
      by (rule seed_token_consumed)
  qed
  show "rs_fed s = butlast target"
    and "\<forall>t. 1 \<le> t \<and> t < length target \<longrightarrow> rs_fed s ! (t - 1) = target ! (t - 1)"
    and "\<forall>tf s'. forward_run m rnd source target tf = Inr s' \<and> 1 < length target \<longrightarrow>
             rs_fed s' ! 0 = target ! 0"
    using fed_tokens_forced [OF assms] by blast+
qed

text \<open>A run of the small model on a target of three rows: step 2 calls the decoder on
  \<open>target[1]\<close>.\<close>

theorem teacher_forcing_one_feeds_target_witness:
  "unit_draws ex_draws \<and>
   forward_run ex_model ex_draws [[1], [0]] [[1], [1], [0]] 1 =
     Inr \<lparr>rs_outputs = [[[0, 0]], [[3 / 2, 1]], [[3 / 2, 1]]], rs_out = [0],
          rs_state = [[1]], rs_fed = [[1], [1]]\<rparr> \<and>
   [[1], [1]] = butlast [[1], [1], [0 :: int]] \<and>
   at_step ex_model ex_draws [[[1, 1]], [[0, 0]]] [[0]] [[1], [0]] [[1], [1], [0]] 1 2 =
     Inr \<lparr>rs_outputs = [[[0, 0]], [[3 / 2, 1]], [[0, 0]]], rs_out = [1],
          rs_state = [[1]], rs_fed = [[1]]\<rparr> \<and>
   Decoder_forward (ed_decoder ex_model) (dec_keep ex_draws 2) ([[1], [1], [0]] ! 1) [[1]]
     [[[1 / 2, 1 / 2]]] = Inr ([[3 / 2, 1]], [[1]])"
proof -
  have ud: "unit_draws ex_draws"
    by (simp add: unit_draws_def ex_draws_def)
  have run: "forward_run ex_model ex_draws [[1], [0]] [[1], [1], [0]] 1 =
     Inr \<lparr>rs_outputs = [[[0, 0]], [[3 / 2, 1]], [[3 / 2, 1]]], rs_out = [0],
          rs_state = [[1]], rs_fed = [[1], [1]]\<rparr>"
    by (simp add: ex_defs run_defs layer_defs upt_rec numeral_2_eq_2 numeral_3_eq_3)
  have step: "at_step ex_model ex_draws [[[1, 1]], [[0, 0]]] [[0]] [[1], [0]] [[1], [1], [0]] 1 2 =
     Inr \<lparr>rs_outputs = [[[0, 0]], [[3 / 2, 1]], [[0, 0]]], rs_out = [1],
          rs_state = [[1]], rs_fed = [[1]]\<rparr>"
    by (simp add: at_step_def loop_entry_def ex_defs run_defs layer_defs upt_rec numeral_2_eq_2
        numeral_3_eq_3)
  have call: "Decoder_forward (ed_decoder ex_model) (dec_keep ex_draws 2) ([[1], [1], [0]] ! 1)
     [[1]] [[[1 / 2, 1 / 2]]] = Inr ([[3 / 2, 1]], [[1]])"
    by (simp add: ex_defs run_defs layer_defs upt_rec numeral_2_eq_2 numeral_3_eq_3)
  from teacher_forcing_one_feeds_target [OF ud run] ud run step call show ?thesis
    by simp
qed

text \<open>
  C3. With the teacher-forcing probability 0 (and draws in \<open>[0, 1)\<close>), in a rollout that
  returns, step 1 calls the decoder on the seed \<open>target[0]\<close>, and every step \<open>t \<ge> 2\<close> calls it
  on what \<open>max(1)[1]\<close> returns for the logits returned at \<open>outputs[t - 1]\<close>, those of the call
  of step \<open>t - 1\<close>: per batch element an index into the vocabulary whose logit is at least
  every other logit of that row. The logits of each call are the returned \<open>outputs[t]\<close>.
\<close>

theorem teacher_forcing_zero_feeds_argmax:
  assumes "unit_draws rnd" and "forward_run m rnd source target 0 = Inr s"
  shows "(\<exists>enc_outputs state0.
            Encoder_forward (ed_encoder m) (enc_keep rnd) source = Inr (enc_outputs, state0) \<and>
            (1 < length target \<longrightarrow>
               (\<exists>ctx logits state'.
                  compute_context m (attn_keep rnd 1) state0 enc_outputs = Inr ctx \<and>
                  Decoder_forward (ed_decoder m) (dec_keep rnd 1) (target ! 0) state0 ctx
                    = Inr (logits, state') \<and>
                  rs_outputs s ! 1 = logits)) \<and>
            (\<forall>t. 2 \<le> t \<and> t < length target \<longrightarrow>
               (\<exists>prev pred ctx logits state'.
                  at_step m rnd enc_outputs state0 source target 0 t = Inr prev \<and>
                  max_indices (rs_outputs s ! (t - 1)) = Inr pred \<and>
                  compute_context m (attn_keep rnd t) (rs_state prev) enc_outputs = Inr ctx \<and>
                  Decoder_forward (ed_decoder m) (dec_keep rnd t) pred (rs_state prev) ctx
                    = Inr (logits, state') \<and>
                  rs_outputs s ! t = logits))) \<and>
         (length (rs_fed s) = length target - 1 \<and>
          (1 < length target \<longrightarrow> rs_fed s ! 0 = target ! 0) \<and>
          (\<forall>t. 2 \<le> t \<and> t < length target \<longrightarrow>
             max_indices (rs_outputs s ! (t - 1)) = Inr (rs_fed s ! (t - 1)) \<and>
             (\<forall>b<length (rs_outputs s ! (t - 1)).
                0 \<le> rs_fed s ! (t - 1) ! b \<and>
                nat (rs_fed s ! (t - 1) ! b) < length (rs_outputs s ! (t - 1) ! b) \<and>
                (\<forall>x\<in>set (rs_outputs s ! (t - 1) ! b).
                   x \<le> rs_outputs s ! (t - 1) ! b ! nat (rs_fed s ! (t - 1) ! b)))))"
  by (rule conjI [OF decoder_calls_free [OF assms] fed_tokens_free [OF assms]])

text \<open>The same run without teacher forcing: step 2 calls the decoder on the arg-max of the
  logits of step 1.\<close>

theorem teacher_forcing_zero_feeds_argmax_witness:
  "unit_draws ex_draws \<and>
   forward_run ex_model ex_draws [[1], [0]] [[1], [1], [0]] 0 =
     Inr \<lparr>rs_outputs = [[[0, 0]], [[3 / 2, 1]], [[1 / 2, 0]]], rs_out = [0],
          rs_state = [[0]], rs_fed = [[1], [0]]\<rparr> \<and>
   max_indices [[3 / 2, 1]] = Inr [0] \<and>
   at_step ex_model ex_draws [[[1, 1]], [[0, 0]]] [[0]] [[1], [0]] [[1], [1], [0]] 0 2 =
     Inr \<lparr>rs_outputs = [[[0, 0]], [[3 / 2, 1]], [[0, 0]]], rs_out = [0],
          rs_state = [[1]], rs_fed = [[1]]\<rparr> \<and>
   Decoder_forward (ed_decoder ex_model) (dec_keep ex_draws 2) [0] [[1]] [[[1 / 2, 1 / 2]]] =
     Inr ([[1 / 2, 0]], [[0]])"
proof -
  have ud: "unit_draws ex_draws"
    by (simp add: unit_draws_def ex_draws_def)
  have run: "forward_run ex_model ex_draws [[1], [0]] [[1], [1], [0]] 0 =
     Inr \<lparr>rs_outputs = [[[0, 0]], [[3 / 2, 1]], [[1 / 2, 0]]], rs_out = [0],
          rs_state = [[0]], rs_fed = [[1], [0]]\<rparr>"
    by (simp add: ex_defs run_defs layer_defs upt_rec numeral_2_eq_2 numeral_3_eq_3)
  have step: "at_step ex_model ex_draws [[[1, 1]], [[0, 0]]] [[0]] [[1], [0]] [[1], [1], [0]] 0 2 =
     Inr \<lparr>rs_outputs = [[[0, 0]], [[3 / 2, 1]], [[0, 0]]], rs_out = [0],
          rs_state = [[1]], rs_fed = [[1]]\<rparr>"
    by (simp add: at_step_def loop_entry_def ex_defs run_defs layer_defs upt_rec numeral_2_eq_2
        numeral_3_eq_3)
  have call: "Decoder_forward (ed_decoder ex_model) (dec_keep ex_draws 2) [0] [[1]]
     [[[1 / 2, 1 / 2]]] = Inr ([[1 / 2, 0]], [[0]])"
    by (simp add: ex_defs run_defs layer_defs upt_rec numeral_2_eq_2 numeral_3_eq_3)
  from teacher_forcing_zero_feeds_argmax [OF ud run] ud run step call show ?thesis
    by (simp add: max_indices_def argmax_def)
qed



section \<open>The output tensor\<close>

text \<open>
  C4. Whatever the input and the teacher-forcing probability, when \<open>forward\<close> returns, the
  target has a first row, the output has one position per target row, and position 0 is the
  zero matrix of shape \<open>(batch_size, target_vocab_size)\<close> it was initialised to: the loop
  writes positions \<open>1 .. target_len - 1\<close> only.
\<close>

theorem output_position_zero_is_zero:
  assumes "forward m rnd source target tf = Inr outputs"
  shows "target \<noteq> [] \<and> length outputs = length target \<and>
         outputs ! 0 = replicate (width source) (replicate (target_vocab_size m) 0)"
proof -
  from assms obtain s where s: "forward_run m rnd source target tf = Inr s"
    and o: "outputs = rs_outputs s"
    by (auto simp: forward_def split: sum.splits)
  from forward_run_Inr [OF s] obtain enc_outputs state out rest where
    t: "target = out # rest" and
    r: "rollout m rnd enc_outputs target tf (width source) [1..<length target]
          \<lparr>rs_outputs = replicate (length target)
              (replicate (width source) (replicate (target_vocab_size m) 0)),
           rs_out = out, rs_state = state, rs_fed = []\<rparr> = Inr s"
    by blast
  from rollout_outputs [OF r] have
    "length (rs_outputs s) = length target"
    "rs_outputs s ! 0 = replicate (length target)
        (replicate (width source) (replicate (target_vocab_size m) 0)) ! 0"
    by simp_all
  with t o show ?thesis by simp
qed

theorem output_position_zero_is_zero_witness:
  "forward ex_model ex_draws [[1], [0]] [[1], [1], [0]] (1 / 2) =
     Inr [[[0, 0]], [[3 / 2, 1]], [[1 / 2, 0]]] \<and>
   [[[0, 0]], [[3 / 2, 1]], [[1 / 2, 0]]] ! 0 =
     replicate (width [[1], [0 :: int]]) (replicate (target_vocab_size ex_model) (0 :: real))"
proof -
  have run: "forward ex_model ex_draws [[1], [0]] [[1], [1], [0]] (1 / 2) =
     Inr [[[0, 0]], [[3 / 2, 1]], [[1 / 2, 0]]]"
    by (simp add: ex_defs run_defs layer_defs upt_rec numeral_2_eq_2 numeral_3_eq_3)
  from output_position_zero_is_zero [OF run] run show ?thesis
    by simp
qed

text \<open>
  C8. For a batch of one element and a target of one row (the start token), once the encoder
  has returned, \<open>forward\<close> returns the all-zero tensor of shape \<open>(1, 1, vocab_size)\<close>: the
  loop runs no iteration, so no token is passed to the decoder and nothing is written.
\<close>

theorem start_token_only_target:
  assumes "Encoder_forward (ed_encoder m) (enc_keep rnd) source = Inr (enc_outputs, state)"
    and "width source = 1"
  shows "forward m rnd source [[tok]] tf = Inr [[replicate (target_vocab_size m) 0]] \<and>
         forward_run m rnd source [[tok]] tf =
           Inr \<lparr>rs_outputs = [[replicate (target_vocab_size m) 0]], rs_out = [tok],
                rs_state = state, rs_fed = []\<rparr>"
  using assms by (simp add: forward_def forward_run_def)

theorem start_token_only_target_witness:
  "Encoder_forward (ed_encoder ex_model) (enc_keep ex_draws) [[1], [0]] =
     Inr ([[[1, 1]], [[0, 0]]], [[0]]) \<and>
   width [[1], [0 :: int]] = 1 \<and>
   forward ex_model ex_draws [[1], [0]] [[7]] (1 / 2) = Inr [[[0, 0]]]"
proof -
  have enc: "Encoder_forward (ed_encoder ex_model) (enc_keep ex_draws) [[1], [0]] =
     Inr ([[[1, 1]], [[0, 0]]], [[0]])"
    by (simp add: ex_defs run_defs layer_defs)
  have w: "width [[1], [0 :: int]] = 1"
    by (simp add: width_def)
  from start_token_only_target [OF enc w, of 7 "1 / 2"] enc w show ?thesis
    by (simp add: ex_defs run_defs)
qed

section \<open>The context vector\<close>

lemma dot_upper:
  assumes "length w = length xs" and "\<forall>x\<in>set w. 0 \<le> x" and "\<forall>x\<in>set xs. x \<le> M"
  shows "dot w xs \<le> M * sum_list w"
  using assms unfolding dot_def
proof (induction w xs rule: list_induct2)
  case Nil
  show ?case by simp
next
  case (Cons a w x xs)
  then have "a * x \<le> a * M" by (simp add: mult_left_mono)
  moreover from Cons have "sum_list (map2 (*) w xs) \<le> M * sum_list w" by simp
  ultimately show ?case by (simp add: algebra_simps)
qed

lemma dot_lower:
  assumes "length w = length xs" and "\<forall>x\<in>set w. 0 \<le> x" and "\<forall>x\<in>set xs. L \<le> x"
  shows "L * sum_list w \<le> dot w xs"
  using assms unfolding dot_def
proof (induction w xs rule: list_induct2)
  case Nil
  show ?case by simp
next
  case (Cons a w x xs)
  then have "a * L \<le> a * x" by (simp add: mult_left_mono)
  moreover from Cons have "L * sum_list w \<le> sum_list (map2 (*) w xs)" by simp
  ultimately show ?case by (simp add: algebra_simps)
qed

lemma dot_sum:
  assumes "length w = length xs"
  shows "dot w xs = (\<Sum>s<length xs. w ! s * xs ! s)"
proof -
  have "dot w xs = sum_list (map (\<lambda>s. w ! s * xs ! s) [0..<length xs])"
    unfolding dot_def using assms
    by (intro arg_cong [of _ _ sum_list] nth_equalityI) simp_all
  also have "\<dots> = (\<Sum>s<length xs. w ! s * xs ! s)"
    by (simp add: sum_list_sum_nth atLeast0LessThan)
  finally show ?thesis .
qed

lemma dot_convex:
  assumes "length w = length xs" and "\<forall>x\<in>set w. 0 \<le> x" and "sum_list w = 1" and "xs \<noteq> []"
  shows "Min (set xs) \<le> dot w xs \<and> dot w xs \<le> Max (set xs)"
  using dot_lower [OF assms(1,2), of "Min (set xs)"] dot_upper [OF assms(1,2), of "Max (set xs)"]
    assms(3,4)
  by simp

text \<open>
  C5. When \<open>_compute_context\<close> returns on a source of at least one position, the attention has
  returned weights \<open>w\<close>, the context has shape \<open>(1, batch, d)\<close>, and for every batch element
  \<open>b\<close> and coordinate \<open>d\<close> the context is the sum over the source positions \<open>s\<close> of
  \<open>w[b][s] * enc_outputs[s][b][d]\<close>, which lies between the least and the greatest of the
  values \<open>enc_outputs[s][b][d]\<close>.
\<close>

theorem context_convex_combination:
  assumes "compute_context m keep dec_state enc_outputs = Inr ctx"
    and "enc_outputs \<noteq> []"
    and "b < length dec_state" and "d < length (enc_outputs ! 0 ! b)"
  shows "\<exists>w. Attention_forward (ed_attention m) keep dec_state enc_outputs = Inr w \<and>
           length ctx = 1 \<and> length (ctx ! 0) = length dec_state \<and>
           ctx ! 0 ! b ! d = (\<Sum>s<length enc_outputs. w ! b ! s * enc_outputs ! s ! b ! d) \<and>
           Min ((\<lambda>pos. pos ! b ! d) ` set enc_outputs) \<le> ctx ! 0 ! b ! d \<and>
           ctx ! 0 ! b ! d \<le> Max ((\<lambda>pos. pos ! b ! d) ` set enc_outputs)"
proof -
  let ?B = "length dec_state"
  let ?col = "map (\<lambda>pos. pos ! b ! d) enc_outputs"
  from assms(1) obtain w c where
    w: "Attention_forward (ed_attention m) keep dec_state enc_outputs = Inr w"
    and c: "bmm (map (\<lambda>r. [r]) w) (permute_102 ?B enc_outputs) = Inr c"
    and ctx: "ctx = permute_102 1 c"
    by (auto simp: compute_context_def Let_def split: sum.splits)
  from Attention_forward_rows [OF assms(2) w] have
    lw: "length w = ?B" and
    rows: "\<forall>row\<in>set w. length row = length enc_outputs \<and> (\<forall>x\<in>set row. 0 \<le> x) \<and>
             sum_list row = 1"
    by simp_all
  from lw assms(3) have wb: "w ! b \<in> set w" by simp
  with rows have r: "length (w ! b) = length ?col" "\<forall>x\<in>set (w ! b). 0 \<le> x" "sum_list (w ! b) = 1"
    by simp_all
  from c have cdef: "c = map2 (\<lambda>am bm. map (\<lambda>r. row_times_mat r bm) am) (map (\<lambda>r. [r]) w)
                         (permute_102 ?B enc_outputs)"
    by (auto simp: bmm_def split: if_splits)
  have lc: "length c = ?B" by (simp add: cdef lw)
  from assms(2) obtain e es where e: "enc_outputs = e # es" by (cases enc_outputs) auto
  have wd: "width (map (\<lambda>pos. pos ! b) enc_outputs) = length (enc_outputs ! 0 ! b)"
    by (simp add: e width_def)
  have cb: "c ! b = [row_times_mat (w ! b) (map (\<lambda>pos. pos ! b) enc_outputs)]"
    using assms(3) lw by (simp add: cdef permute_102_def)
  have val: "ctx ! 0 ! b ! d = dot (w ! b) ?col"
    using assms(3,4) lc by (simp add: ctx permute_102_def cb row_times_mat_def wd o_def)
  have "?col \<noteq> []" using assms(2) by simp
  from dot_convex [OF r this] dot_sum [OF r(1)] val lc w show ?thesis
    by (simp add: ctx permute_102_def)
qed

text \<open>Two source positions with the uniform weights of the small model.\<close>

theorem context_convex_combination_witness:
  "compute_context ex_model keep_all [[0]] [[[1, 3]], [[0, 2]]] = Inr [[[1 / 2, 5 / 2]]] \<and>
   Attention_forward (ed_attention ex_model) keep_all [[0]] [[[1, 3]], [[0, 2]]] =
     Inr [[1 / 2, 1 / 2]] \<and>
   (5 / 2 :: real) = 1 / 2 * 3 + 1 / 2 * 2 \<and> (2 :: real) \<le> 5 / 2 \<and> (5 / 2 :: real) \<le> 3"
proof -
  have run: "compute_context ex_model keep_all [[0]] [[[1, 3]], [[0, 2]]] = Inr [[[1 / 2, 5 / 2]]]"
    by (simp add: ex_defs run_defs layer_defs upt_rec numeral_2_eq_2)
  have att: "Attention_forward (ed_attention ex_model) keep_all [[0]] [[[1, 3]], [[0, 2]]] =
     Inr [[1 / 2, 1 / 2]]"
    by (simp add: ex_defs run_defs layer_defs)
  from context_convex_combination [OF run, of 0 1] run att show ?thesis
    by simp
qed


section \<open>Dropout of the embedded token\<close>

text \<open>The two decoders with their steps carried out, for a context \<open>[ctx]\<close> of one position
  and tokens inside the table: when the recurrent layer returns on the input written in the
  hypothesis, the decoder returns the projection of the dropout of the combined features.\<close>

lemma Dropout_forward2_rows:
  "list_all (\<lambda>v. length v = n) x \<Longrightarrow> list_all (\<lambda>v. length v = n) (Dropout_forward2 d keep x)"
  by (simp add: list_all_length Dropout_forward2_def)

lemma Dropout_forward3_single:
  "Dropout_forward3 d keep [x] = [Dropout_forward2 d (keep 0) x]"
  by (simp add: Dropout_forward3_def mapi_def)

lemma Dropout_forward2_nth:
  "b < length x \<Longrightarrow> j < length (x ! b) \<Longrightarrow>
   Dropout_forward2 d keep x ! b ! j = drop1 d (keep b j) (x ! b ! j)"
  by (simp add: Dropout_forward2_def Dropout_forward1_def)

lemma Embedding_forward_single:
  "list_all (\<lambda>t. 0 \<le> t \<and> t < int (length w)) token \<Longrightarrow>
   Embedding_forward w [token] = Inr [map (\<lambda>t. w ! nat t) token]"
  by (simp add: Embedding_forward_def)

lemma Decoder_forward_unfolded:
  assumes tok: "list_all (\<lambda>t. 0 \<le> t \<and> t < int (length (dec_embedding d))) token"
    and ctx: "length ctx = length token"
    and rnn: "GRU_forward (dec_rnn d)
                [map2 (@) (map (\<lambda>t. dec_embedding d ! nat t) token) ctx] (Some [dec_state])
              = Inr ([out], [st])"
    and out: "length out = length token"
    and fc: "list_all (\<lambda>v. length v = in_features (dec_fc d))
               (map2 (@) (map2 (@) out ctx) (map (\<lambda>t. dec_embedding d ! nat t) token))"
  shows "Decoder_forward d keep token dec_state [ctx] =
           Inr (map (linear_apply (dec_fc d))
                  (Dropout_forward2 (dec_dropout d) keep
                     (map2 (@) (map2 (@) out ctx) (map (\<lambda>t. dec_embedding d ! nat t) token))),
                st)"
proof -
  have inp: "Decoder_rnn_input d token [ctx] =
      Inr ([map (\<lambda>t. dec_embedding d ! nat t) token],
           [map2 (@) (map (\<lambda>t. dec_embedding d ! nat t) token) ctx])"
    using ctx by (simp add: Decoder_rnn_input_def Embedding_forward_single [OF tok] cat_dim2_def)
  have lin: "Linear_forward2 (dec_fc d) (Dropout_forward2 (dec_dropout d) keep
               (map2 (@) (map2 (@) out ctx) (map (\<lambda>t. dec_embedding d ! nat t) token))) =
             Inr (map (linear_apply (dec_fc d)) (Dropout_forward2 (dec_dropout d) keep
               (map2 (@) (map2 (@) out ctx) (map (\<lambda>t. dec_embedding d ! nat t) token))))"
    using Dropout_forward2_rows [OF fc] by (simp add: Linear_forward2_def)
  show ?thesis
    using ctx out by (simp add: Decoder_forward_def inp rnn squeeze0_def cat_dim1_def lin)
qed

lemma Decoder_forward_c_unfolded:
  assumes tok: "list_all (\<lambda>t. 0 \<le> t \<and> t < int (length (dec_embedding_c dc))) token"
    and ctx: "length ctx = length token"
    and rnn: "LSTM_forward (dec_lstm dc)
                [map2 (@) (Dropout_forward2 (dec_dropout_c dc) (keep_e 0)
                             (map (\<lambda>t. dec_embedding_c dc ! nat t) token)) ctx]
                (dec_hidden, dec_cell)
              = Inr ([out], hidden', cell')"
    and out: "length out = length token"
    and fc: "list_all (\<lambda>v. length v = in_features (dec_fc_c dc))
               (map2 (@) (map2 (@) out ctx)
                  (Dropout_forward2 (dec_dropout_c dc) (keep_e 0)
                     (map (\<lambda>t. dec_embedding_c dc ! nat t) token)))"
  shows "Decoder_forward_c dc keep_e keep token [ctx] dec_hidden dec_cell =
           Inr (map (linear_apply (dec_fc_c dc))
                  (Dropout_forward2 (dec_dropout_c dc) keep
                     (map2 (@) (map2 (@) out ctx)
                        (Dropout_forward2 (dec_dropout_c dc) (keep_e 0)
                           (map (\<lambda>t. dec_embedding_c dc ! nat t) token)))),
                hidden', cell')"
proof -
  let ?e = "Dropout_forward2 (dec_dropout_c dc) (keep_e 0)
              (map (\<lambda>t. dec_embedding_c dc ! nat t) token)"
  have inp: "Decoder_rnn_input_c dc keep_e token [ctx] = Inr ([?e], [map2 (@) ?e ctx])"
    using ctx
    by (simp add: Decoder_rnn_input_c_def Embedding_forward_single [OF tok] cat_dim2_def
        Dropout_forward3_single)
  have lin: "Linear_forward2 (dec_fc_c dc) (Dropout_forward2 (dec_dropout_c dc) keep
               (map2 (@) (map2 (@) out ctx) ?e)) =
             Inr (map (linear_apply (dec_fc_c dc)) (Dropout_forward2 (dec_dropout_c dc) keep
               (map2 (@) (map2 (@) out ctx) ?e)))"
    using Dropout_forward2_rows [OF fc] by (simp add: Linear_forward2_def)
  show ?thesis
    using ctx out by (simp add: Decoder_forward_c_def inp rnn squeeze0_def cat_dim1_def lin)
qed

text \<open>
  C7 (as amended). In the decoder of \<^verbatim>\<open>components.py\<close> the embedded previous token goes
  through dropout before anything uses it: the recurrent layer is called on the dropout of the
  embedding concatenated with the context, each feature of it the dropout of the table entry,
  and the combined features hold that same dropout of the embedding. In the decoder of
  \<^verbatim>\<open>encoder_decoder.py\<close>, the one the orchestrator runs, the recurrent layer is called on the
  embedding itself concatenated with the context, and the combined features hold the embedding
  itself; dropout is applied once, to the combined features before the projection.
\<close>

theorem embedded_token_dropout:
  assumes "length ctx = length token"
  shows "(list_all (\<lambda>t. 0 \<le> t \<and> t < int (length (dec_embedding_c dc))) token \<longrightarrow>
          LSTM_forward (dec_lstm dc)
            [map2 (@) (Dropout_forward2 (dec_dropout_c dc) (keep_e 0)
                         (map (\<lambda>t. dec_embedding_c dc ! nat t) token)) ctx]
            (dec_hidden, dec_cell) = Inr ([out_c], hidden', cell') \<longrightarrow>
          length out_c = length token \<longrightarrow>
          list_all (\<lambda>v. length v = in_features (dec_fc_c dc))
            (map2 (@) (map2 (@) out_c ctx)
               (Dropout_forward2 (dec_dropout_c dc) (keep_e 0)
                  (map (\<lambda>t. dec_embedding_c dc ! nat t) token))) \<longrightarrow>
          Decoder_forward_c dc keep_e keep token [ctx] dec_hidden dec_cell =
            Inr (map (linear_apply (dec_fc_c dc))
                   (Dropout_forward2 (dec_dropout_c dc) keep
                      (map2 (@) (map2 (@) out_c ctx)
                         (Dropout_forward2 (dec_dropout_c dc) (keep_e 0)
                            (map (\<lambda>t. dec_embedding_c dc ! nat t) token)))),
                 hidden', cell')) \<and>
         (\<forall>b j. b < length token \<and> j < length (dec_embedding_c dc ! nat (token ! b)) \<longrightarrow>
            Dropout_forward2 (dec_dropout_c dc) (keep_e 0)
              (map (\<lambda>t. dec_embedding_c dc ! nat t) token) ! b ! j =
            drop1 (dec_dropout_c dc) (keep_e 0 b j) (dec_embedding_c dc ! nat (token ! b) ! j)) \<and>
         (list_all (\<lambda>t. 0 \<le> t \<and> t < int (length (dec_embedding d))) token \<longrightarrow>
          GRU_forward (dec_rnn d)
            [map2 (@) (map (\<lambda>t. dec_embedding d ! nat t) token) ctx] (Some [dec_state])
            = Inr ([out], [st]) \<longrightarrow>
          length out = length token \<longrightarrow>
          list_all (\<lambda>v. length v = in_features (dec_fc d))
            (map2 (@) (map2 (@) out ctx) (map (\<lambda>t. dec_embedding d ! nat t) token)) \<longrightarrow>
          Decoder_forward d keep token dec_state [ctx] =
            Inr (map (linear_apply (dec_fc d))
                   (Dropout_forward2 (dec_dropout d) keep
                      (map2 (@) (map2 (@) out ctx)
                         (map (\<lambda>t. dec_embedding d ! nat t) token))),
                 st))"
proof (intro conjI allI impI)
  assume "list_all (\<lambda>t. 0 \<le> t \<and> t < int (length (dec_embedding_c dc))) token"
    and "LSTM_forward (dec_lstm dc)
            [map2 (@) (Dropout_forward2 (dec_dropout_c dc) (keep_e 0)
                         (map (\<lambda>t. dec_embedding_c dc ! nat t) token)) ctx]
            (dec_hidden, dec_cell) = Inr ([out_c], hidden', cell')"
    and "length out_c = length token"
    and "list_all (\<lambda>v. length v = in_features (dec_fc_c dc))
            (map2 (@) (map2 (@) out_c ctx)
               (Dropout_forward2 (dec_dropout_c dc) (keep_e 0)
                  (map (\<lambda>t. dec_embedding_c dc ! nat t) token)))"
  then show "Decoder_forward_c dc keep_e keep token [ctx] dec_hidden dec_cell =
            Inr (map (linear_apply (dec_fc_c dc))
                   (Dropout_forward2 (dec_dropout_c dc) keep
                      (map2 (@) (map2 (@) out_c ctx)
                         (Dropout_forward2 (dec_dropout_c dc) (keep_e 0)
                            (map (\<lambda>t. dec_embedding_c dc ! nat t) token)))),
                 hidden', cell')"
    by (intro Decoder_forward_c_unfolded assms)
next
  fix b j
  assume "b < length token \<and> j < length (dec_embedding_c dc ! nat (token ! b))"
  then show "Dropout_forward2 (dec_dropout_c dc) (keep_e 0)
              (map (\<lambda>t. dec_embedding_c dc ! nat t) token) ! b ! j =
            drop1 (dec_dropout_c dc) (keep_e 0 b j) (dec_embedding_c dc ! nat (token ! b) ! j)"
    by (simp add: Dropout_forward2_nth)
next
  assume "list_all (\<lambda>t. 0 \<le> t \<and> t < int (length (dec_embedding d))) token"
    and "GRU_forward (dec_rnn d)
            [map2 (@) (map (\<lambda>t. dec_embedding d ! nat t) token) ctx] (Some [dec_state])
            = Inr ([out], [st])"
    and "length out = length token"
    and "list_all (\<lambda>v. length v = in_features (dec_fc d))
            (map2 (@) (map2 (@) out ctx) (map (\<lambda>t. dec_embedding d ! nat t) token))"
  then show "Decoder_forward d keep token dec_state [ctx] =
            Inr (map (linear_apply (dec_fc d))
                   (Dropout_forward2 (dec_dropout d) keep
                      (map2 (@) (map2 (@) out ctx)
                         (map (\<lambda>t. dec_embedding d ! nat t) token))),
                 st)"
    by (intro Decoder_forward_unfolded assms)
qed

text \<open>Token 1 in training mode with \<open>p = 1 / 2\<close>. In the decoder of \<^verbatim>\<open>components.py\<close>, with
  the mask that drops the embedding, the recurrent layer's stand-in sees 0 and the logits are
  those of an embedding 0; in the other the stand-in sees the embedding 1 and returns it as the
  state.\<close>

theorem embedded_token_dropout_witness:
  "Decoder_forward_c ex_decoder_c drop_all keep_rows [1] [[[5, 6]]] [[[0]]] [[[0]]] =
     Inr ([[1 / 2, 0]], [[[0]]], [[[0]]]) \<and>
   LSTM_forward (dec_lstm ex_decoder_c) [[[0, 5, 6]]] ([[[0]]], [[[0]]]) =
     Inr ([[[0]]], [[[0]]], [[[0]]]) \<and>
   Decoder_forward ex_decoder_t keep_rows [1] [[0]] [[[5, 6]]] = Inr ([[5 / 2, 2]], [[1]]) \<and>
   GRU_forward (dec_rnn ex_decoder_t) [[[1, 5, 6]]] (Some [[[0]]]) = Inr ([[[1]]], [[[1]]])"
proof -
  have l: "length [[5, 6 :: real]] = length [1 :: int]" by simp
  from embedded_token_dropout [OF l, of ex_decoder_c drop_all "[[[0]]]" "[[[0]]]" "[[0]]"
      "[[[0]]]" "[[[0]]]" keep_rows ex_decoder_t "[[0]]" "[[1]]" "[[1]]"]
  show ?thesis
    by (simp add: Decoder_forward_c_def Decoder_rnn_input_c_def Decoder_forward_def
        Decoder_rnn_input_def ex_defs layer_defs upt_rec numeral_2_eq_2 numeral_3_eq_3)
qed

text \<open>In training mode the decoder of \<^verbatim>\<open>encoder_decoder.py\<close> passes the embedding 1 of
  token 1 to the recurrent layer, whose stand-in returns it as the new state; the dropout of
  that embedding is 0 or 2, whatever the mask.\<close>

theorem decoder_embedding_no_dropout_counterexample:
  "Decoder_rnn_input ex_decoder_t [1] [[[5, 6]]] = Inr ([[[1]]], [[[1, 5, 6]]]) \<and>
   Decoder_forward ex_decoder_t keep_rows [1] [[0]] [[[5, 6]]] = Inr ([[5 / 2, 2]], [[1]]) \<and>
   training (dec_dropout ex_decoder_t) \<and>
   cat_dim2 (Dropout_forward3 (dec_dropout ex_decoder_t) drop_all [[[1]]]) [[[5, 6]]] =
     Inr [[[0, 5, 6]]] \<and>
   cat_dim2 (Dropout_forward3 (dec_dropout ex_decoder_t) keep_all [[[1]]]) [[[5, 6]]] =
     Inr [[[2, 5, 6]]]"
  by (simp add: Decoder_forward_def Decoder_rnn_input_def ex_defs layer_defs upt_rec
      numeral_2_eq_2 numeral_3_eq_3)

lemmas init_defs = EncoderDecoder_init_def Encoder_init_def Attention_init_def Decoder_init_def
  nn_GRU_def nn_Linear_def nn_Dropout_def positive_hidden_def


lemmas shape_defs = cat_shape_def Linear_shape_def Embedding_shape_def GRU_shape_def
  permute_102_shape_def unsqueeze_def squeeze0_shape_def repeat_shape_def bmm_shape_def
  index_shape_def max1_shape_def broadcastable_def


section \<open>Construction and shapes\<close>

lemma EncoderDecoder_init_Inr_iff:
  "(\<exists>m. EncoderDecoder_init rnn_ok ws wt rnn_units attn_units dropout = Inr m) \<longleftrightarrow>
     rnn_ok (int (snd ws)) rnn_units \<and> rnn_ok (rnn_units * 2 + int (snd wt)) rnn_units \<and>
     0 \<le> rnn_units \<and> 0 \<le> attn_units \<and> 0 \<le> dropout \<and> dropout \<le> 1"
  by (cases wt) (auto simp: init_defs Let_def split: sum.splits)

lemma EncoderDecoder_init_spec:
  assumes "EncoderDecoder_init rnn_ok ws wt (int u) (int a) dropout = Inr m"
  shows "m = \<lparr>eds_encoder =
                \<lparr>es_embedding = ws,
                 es_gru = \<lparr>gru_input_size = snd ws, gru_hidden_size = u, gru_directions = 2\<rparr>,
                 es_fc = \<lparr>lin_in = 2 * u, lin_out = u\<rparr>,
                 es_dropout = \<lparr>p = dropout, training = True\<rparr>\<rparr>,
              eds_attention =
                \<lparr>as_attn_in = int u * 3, as_fc = \<lparr>lin_in = 3 * u, lin_out = a\<rparr>,
                 as_dropout = \<lparr>p = 0, training = True\<rparr>\<rparr>,
              eds_decoder =
                \<lparr>ds_embedding = wt, ds_vocab_size = fst wt,
                 ds_rnn = \<lparr>gru_input_size = 2 * u + snd wt, gru_hidden_size = u,
                           gru_directions = 1\<rparr>,
                 ds_fc = \<lparr>lin_in = u + 2 * u + snd wt, lin_out = fst wt\<rparr>,
                 ds_dropout = \<lparr>p = dropout, training = True\<rparr>\<rparr>,
              eds_target_vocab_size = fst wt\<rparr>"
proof -
  have n: "nat (int u * 2) = 2 * u" "nat (int u * 3) = 3 * u"
    "nat (int u * 2 + int (snd wt)) = 2 * u + snd wt"
    "nat (int u + 2 * int u + int (snd wt)) = u + 2 * u + snd wt"
    by (simp_all add: nat_mult_distrib nat_add_distrib)
  from assms show ?thesis
    by (cases wt) (auto simp: init_defs Let_def n split: sum.splits if_splits)
qed

lemma Encoder_forward_shape_ok:
  assumes "es_gru e = \<lparr>gru_input_size = snd (es_embedding e), gru_hidden_size = u,
                        gru_directions = 2\<rparr>"
    and "es_fc e = \<lparr>lin_in = 2 * u, lin_out = u\<rparr>" and "0 < source_len"
  shows "Encoder_forward_shape e [source_len, batch] =
           Inr ([source_len, batch, 2 * u], [batch, u])"
  using assms by (simp add: Encoder_forward_shape_def shape_defs)

lemma Attention_forward_shape_ok:
  assumes "as_fc a = \<lparr>lin_in = 3 * u, lin_out = k\<rparr>"
  shows "Attention_forward_shape a [batch, u] [source_len, batch, 2 * u] =
           Inr [batch, source_len]"
  using assms by (simp add: Attention_forward_shape_def shape_defs)

lemma compute_context_shape_ok:
  assumes "as_fc (eds_attention m) = \<lparr>lin_in = 3 * u, lin_out = k\<rparr>"
  shows "compute_context_shape m [batch, u] [source_len, batch, 2 * u] = Inr [1, batch, 2 * u]"
  by (simp add: compute_context_shape_def Attention_forward_shape_ok [OF assms] shape_defs)

lemma Decoder_forward_shape_ok:
  assumes "ds_rnn d = \<lparr>gru_input_size = 2 * u + snd (ds_embedding d), gru_hidden_size = u,
                        gru_directions = 1\<rparr>"
    and "ds_fc d = \<lparr>lin_in = u + 2 * u + snd (ds_embedding d), lin_out = v\<rparr>"
  shows "Decoder_forward_shape d [batch] [batch, u] [1, batch, 2 * u] =
           Inr ([batch, v], [batch, u])"
  using assms by (simp add: Decoder_forward_shape_def shape_defs)

lemma rollout_shape_ok:
  assumes "as_fc (eds_attention m) = \<lparr>lin_in = 3 * u, lin_out = k\<rparr>"
    and "ds_rnn (eds_decoder m) =
           \<lparr>gru_input_size = 2 * u + snd (ds_embedding (eds_decoder m)), gru_hidden_size = u,
            gru_directions = 1\<rparr>"
    and "ds_fc (eds_decoder m) =
           \<lparr>lin_in = u + 2 * u + snd (ds_embedding (eds_decoder m)), lin_out = v\<rparr>"
    and "0 < v" and "\<forall>t\<in>set ts. t < target_len"
  shows "rollout_shape m choices [source_len, batch, 2 * u] [target_len, batch]
           [target_len, batch, v] ts ([batch], [batch, u]) = Inr ([batch], [batch, u])"
  using assms(5)
proof (induction ts)
  case Nil
  show ?case by simp
next
  case (Cons t ts)
  then have t: "t < target_len" and IH: "rollout_shape m choices [source_len, batch, 2 * u]
      [target_len, batch] [target_len, batch, v] ts ([batch], [batch, u]) = Inr ([batch], [batch, u])"
    by simp_all
  have next_out: "(if choices t then index_shape (int t) 0 [target_len, batch]
                   else max1_shape [batch, v]) = Inr [batch]"
    using t assms(4) by (simp add: index_shape_def max1_shape_def)
  have b: "broadcastable [batch, v] [batch, v]"
    by (simp add: broadcastable_def)
  show ?case
    by (simp add: compute_context_shape_ok [OF assms(1)] Decoder_forward_shape_ok [OF assms(2,3)]
        b next_out IH del: One_nat_def)
qed

text \<open>
  C9. For a model that \<open>EncoderDecoder\<close> has constructed with a positive \<open>rnn_units\<close>, a
  source of shape \<open>(source_len, batch)\<close> with at least one position, a target of shape
  \<open>(target_len, batch)\<close> with at least one row and a non-empty target vocabulary, no
  operation of the forward pass meets operands that do not fit, whatever the teacher-forcing
  draws: the pass returns the shape \<open>(target_len, batch, vocab)\<close>. The encoder's outputs have
  \<open>2 * rnn_units\<close> features and its state \<open>rnn_units\<close>, the attention's projection takes
  \<open>3 * rnn_units\<close> features and the decoder's recurrent layer \<open>2 * rnn_units + embed_dim\<close>.
\<close>

theorem forward_shape_safe:
  assumes "EncoderDecoder_init rnn_ok (vocab_src, embed_src) (vocab_trg, embed_trg) rnn_units
             attn_units dropout = Inr m"
    and "0 < rnn_units" and "0 < source_len" and "0 < target_len" and "0 < vocab_trg"
  shows "forward_shape m choices [source_len, batch] [target_len, batch] =
           Inr [target_len, batch, vocab_trg] \<and>
         Encoder_forward_shape (eds_encoder m) [source_len, batch] =
           Inr ([source_len, batch, 2 * nat rnn_units], [batch, nat rnn_units]) \<and>
         lin_in (as_fc (eds_attention m)) = 3 * nat rnn_units \<and>
         gru_input_size (ds_rnn (eds_decoder m)) = 2 * nat rnn_units + embed_trg"
proof -
  from assms(1) have "\<exists>m. EncoderDecoder_init rnn_ok (vocab_src, embed_src)
      (vocab_trg, embed_trg) rnn_units attn_units dropout = Inr m" by blast
  then have "0 \<le> attn_units" by (simp add: EncoderDecoder_init_Inr_iff)
  with assms(2) obtain u a where ua: "rnn_units = int u" "attn_units = int a" "0 < u"
    by (metis nat_0_le zero_less_imp_eq_int)
  note m = EncoderDecoder_init_spec [OF assms(1) [unfolded ua]]
  have enc: "Encoder_forward_shape (eds_encoder m) [source_len, batch] =
      Inr ([source_len, batch, 2 * u], [batch, u])"
    by (rule Encoder_forward_shape_ok [OF _ _ assms(3)]) (simp_all add: m)
  have roll: "rollout_shape m choices [source_len, batch, 2 * u] [target_len, batch]
      [target_len, batch, vocab_trg] [1..<target_len] ([batch], [batch, u]) = Inr ([batch], [batch, u])"
    by (rule rollout_shape_ok [where k = a]) (simp_all add: m assms(5))
  have v: "eds_target_vocab_size m = vocab_trg"
    by (simp add: m)
  have "forward_shape m choices [source_len, batch] [target_len, batch] =
      Inr [target_len, batch, vocab_trg]"
    using assms(4) by (simp add: forward_shape_def enc roll v index_shape_def del: One_nat_def)
  with enc show ?thesis
    by (simp add: ua) (simp add: m)
qed


text \<open>The specification's scenario: 5 source positions, 4 target rows, a batch of 2.\<close>

theorem forward_shape_safe_witness:
  "EncoderDecoder_init positive_hidden (100, 50) (100, 50) 8 8 (3 / 10) = Inr ex_spec \<and>
   forward_shape ex_spec second_step [5, 2] [4, 2] = Inr [4, 2, 100] \<and>
   Encoder_forward_shape (eds_encoder ex_spec) [5, 2] = Inr ([5, 2, 16], [2, 8])"
proof -
  have init: "EncoderDecoder_init positive_hidden (100, 50) (100, 50) 8 8 (3 / 10) = Inr ex_spec"
    by (simp add: init_defs ex_spec_def)
  from forward_shape_safe [OF init, of 5 4 second_step 2] init show ?thesis
    by simp
qed










end
